theory Spec2Isabelle
  imports Complex_Main "HOL-Library.Word"
begin

section \<open>Failures and C arithmetic\<close>

text \<open>
  The ways in which the C++ code stops without returning a value. Each one is a branch
  of the model: an integer division by zero, a call through a null pointer or through
  a pointer to a deleted object, a failed
  \<^verbatim>\<open>Q_ASSERT\<close> (debug builds only), a wait on a condition variable that nobody
  signals, the end of a non-void function reached without \<^verbatim>\<open>return\<close>, the
  dereference of the end iterator of an empty range, and the division of the least
  \<^verbatim>\<open>int\<close> by \<open>-1\<close>, which traps like a division by zero.

  The C++ \<^verbatim>\<open>int\<close> and \<^verbatim>\<open>qint64\<close> values are modelled as \<^typ>\<open>int\<close>. An
  \<^verbatim>\<open>int\<close> has 32 bits. Where the code computes with values that its caller
  chooses freely, which is the product in the constructor of the scene host and the
  arithmetic of \<^verbatim>\<open>initDriver\<close>, the result is reduced to that range by \<open>c_int\<close>,
  as the compiled code does. Frame counters, image sizes and the 64-bit elapsed time
  are taken to stay in the range of their type.
\<close>

datatype failure =
    DivisionByZero
  | NullDereference
  | AssertionFailed
  | BlockedForever
  | DanglingPointer
  | MissingReturn
  | EndIteratorDereference
  | DivisionOverflow

text \<open>The value that a 32-bit \<^verbatim>\<open>int\<close> holds after an operation whose exact result
  is the argument.\<close>

definition c_int :: "int \<Rightarrow> int" where
  "c_int x = (x + 2147483648) mod 4294967296 - 2147483648"

text \<open>C++ integer division truncates towards zero. It is undefined for a zero divisor
  and for the least \<^verbatim>\<open>int\<close> divided by \<open>-1\<close>.\<close>

definition c_quot :: "int \<Rightarrow> int \<Rightarrow> int" where
  "c_quot a b = sgn a * sgn b * (\<bar>a\<bar> div \<bar>b\<bar>)"

definition c_div :: "int \<Rightarrow> int \<Rightarrow> failure + int" where
  "c_div a b =
     (if b = 0 then Inl DivisionByZero
      else if a = - 2147483648 \<and> b = - 1 then Inl DivisionOverflow
      else Inr (c_quot a b))"

text \<open>Sequencing of two steps, the second of which runs only when the first returned.\<close>

definition and_then :: "failure + 'a \<Rightarrow> ('a \<Rightarrow> failure + 'b) \<Rightarrow> failure + 'b" where
  "and_then r f = (case r of Inl e \<Rightarrow> Inl e | Inr x \<Rightarrow> f x)"

section \<open>The deterministic clock: \<^verbatim>\<open>QmlAnimationDriver\<close>\<close>

text \<open>
  \<^verbatim>\<open>qml_wrapper.cpp\<close>, lines 58--77. The class has the two fields \<^verbatim>\<open>m_step\<close>
  and \<^verbatim>\<open>m_elapsed\<close>. \<^verbatim>\<open>advance()\<close> adds the step to the elapsed time and then
  calls \<^verbatim>\<open>advanceAnimation()\<close> of the base class, which belongs to the toolkit and
  reads the clock through \<^verbatim>\<open>elapsed()\<close>; it has no access to the two fields. What
  that call does to the animations of a scene is not part of the clock; in the scene
  host below it is the logical time of the scene, which is the elapsed time of the
  installed clock.
\<close>

record QmlAnimationDriver =
  m_step :: int
  m_elapsed :: int

definition QmlAnimationDriver :: "int \<Rightarrow> QmlAnimationDriver" where
  "QmlAnimationDriver msPerStep = \<lparr>m_step = msPerStep, m_elapsed = 0\<rparr>"

definition advance :: "QmlAnimationDriver \<Rightarrow> QmlAnimationDriver" where
  "advance d = d\<lparr>m_elapsed := m_elapsed d + m_step d\<rparr>"

definition elapsed :: "QmlAnimationDriver \<Rightarrow> int" where
  "elapsed d = m_elapsed d"

section \<open>Scene metadata: \<^verbatim>\<open>getIntProp\<close> and \<^verbatim>\<open>getMaxDuration\<close>\<close>

text \<open>
  A \<^verbatim>\<open>QObject\<close> of the loaded scene, as far as the two functions look at it: the class
  name of its meta object, its properties in meta-object order (name and the value
  that \<^verbatim>\<open>prop.read(object).toInt()\<close> yields), and its children.
\<close>

datatype qobject =
  QObject (className: string) (properties: "(string \<times> int) list") (children: "qobject list")

text \<open>\<^verbatim>\<open>QString::contains\<close>: the argument occurs as a contiguous substring.\<close>

primrec starts_with :: "string \<Rightarrow> string \<Rightarrow> bool" where
  "starts_with s [] = True"
| "starts_with s (c # cs) = (case s of [] \<Rightarrow> False | d # ds \<Rightarrow> d = c \<and> starts_with ds cs)"

primrec contains :: "string \<Rightarrow> string \<Rightarrow> bool" where
  "contains [] sub = (sub = [])"
| "contains (c # cs) sub = (starts_with (c # cs) sub \<or> contains cs sub)"

text \<open>
  \<^verbatim>\<open>getIntProp\<close>, lines 517--532. The loop runs over the property indices
  \<^verbatim>\<open>i = 0 .. propertyCount - 1\<close>; \<open>getIntProp_from\<close> is the loop from index \<open>i\<close> on.
  The divisor is the constant 1000, so the division cannot fail.
\<close>

function getIntProp_from :: "nat \<Rightarrow> qobject \<Rightarrow> string \<Rightarrow> int" where
  "getIntProp_from i object propertyName =
     (if i < length (properties object) then
        (let prop = properties object ! i in
         if fst prop = propertyName \<and> 0 < snd prop then
           (if propertyName = ''duration'' then c_quot (snd prop) 1000 else snd prop)
         else getIntProp_from (Suc i) object propertyName)
      else 0)"
  by pat_completeness auto
termination
  by (relation "measure (\<lambda>(i, object, n). length (properties object) - i)") auto

declare getIntProp_from.simps [simp del]

definition getIntProp :: "qobject \<Rightarrow> string \<Rightarrow> int" where
  "getIntProp object propertyName = getIntProp_from 0 object propertyName"

text \<open>
  \<^verbatim>\<open>getMaxDuration\<close>, lines 534--570. The three loops over the children are the
  functions \<open>seq_loop\<close> (the running sum \<^verbatim>\<open>dur_seq\<close>), \<open>par_loop\<close> (the vector
  \<^verbatim>\<open>durationList\<close>) and \<open>other_loop\<close> (the last branch). \<^verbatim>\<open>max_element\<close> of an
  empty vector returns its end iterator, which the code dereferences; the last branch
  has no \<^verbatim>\<open>return\<close> after its loop.
\<close>

definition isLeafAnimation :: "string \<Rightarrow> bool" where
  "isLeafAnimation name =
     (contains name ''NumberAnimation'' \<or> contains name ''ColorAnimation''
      \<or> contains name ''PauseAnimation'' \<or> contains name ''PathAnimation''
      \<or> contains name ''RotationAnimation'' \<or> contains name ''PropertyAnimation'')"

fun max_element :: "int list \<Rightarrow> failure + int" where
  "max_element [] = Inl EndIteratorDereference"
| "max_element (x # xs) = Inr (fold max xs x)"

fun getMaxDuration_obj :: "qobject \<Rightarrow> failure + int"
  and seq_loop :: "qobject list \<Rightarrow> int \<Rightarrow> failure + int"
  and par_loop :: "qobject list \<Rightarrow> int list \<Rightarrow> failure + int list"
  and other_loop :: "qobject list \<Rightarrow> failure + int"
where
  "getMaxDuration_obj (QObject name props cs) =
     (if contains name ''Sequential'' then seq_loop cs 0
      else if contains name ''Parallel'' then
        (case par_loop cs [] of Inl e \<Rightarrow> Inl e | Inr durationList \<Rightarrow> max_element durationList)
      else if isLeafAnimation name then Inr (getIntProp (QObject name props cs) ''duration'')
      else other_loop cs)"
| "seq_loop [] dur_seq = Inr dur_seq"
| "seq_loop (child # cs) dur_seq =
     (case getMaxDuration_obj child of
        Inl e \<Rightarrow> Inl e
      | Inr childDuration \<Rightarrow> seq_loop cs (dur_seq + childDuration))"
| "par_loop [] durationList = Inr durationList"
| "par_loop (child # cs) durationList =
     (case getMaxDuration_obj child of
        Inl e \<Rightarrow> Inl e
      | Inr d \<Rightarrow> par_loop cs (durationList @ [d]))"
| "other_loop [] = Inl MissingReturn"
| "other_loop (child # cs) =
     (case getMaxDuration_obj child of
        Inl e \<Rightarrow> Inl e
      | Inr duration \<Rightarrow> if 0 < duration then Inr duration else other_loop cs)"

text \<open>The entry point takes a pointer, which may be null.\<close>

definition getMaxDuration :: "qobject option \<Rightarrow> failure + int" where
  "getMaxDuration root_ptr = (case root_ptr of None \<Rightarrow> Inr 0 | Some obj \<Rightarrow> getMaxDuration_obj obj)"

section \<open>Sizes, formats and images\<close>

text \<open>
  \<^verbatim>\<open>QSize\<close> is a pair of width and height; a default-constructed size is
  \<open>(-1, -1)\<close>, and a size is empty when either component is below one. Multiplying a
  size by a \<^verbatim>\<open>qreal\<close> rounds each component to the nearest integer. The device pixel
  ratio is a \<^verbatim>\<open>qreal\<close>; it is modelled as a real number, which is exact for the only
  value the facade ever sets, \<open>1.0\<close>.
\<close>

type_synonym qsize = "int \<times> int"

definition qsize_isEmpty :: "qsize \<Rightarrow> bool" where
  "qsize_isEmpty s = (fst s < 1 \<or> snd s < 1)"

definition qRound :: "real \<Rightarrow> int" where
  "qRound d = \<lfloor>d + 1 / 2\<rfloor>"

definition qsize_times :: "qsize \<Rightarrow> real \<Rightarrow> qsize" where
  "qsize_times s c = (qRound (of_int (fst s) * c), qRound (of_int (snd s) * c))"

datatype qformat = Format_Invalid | Format_ARGB32 | Format_RGBA8888

text \<open>
  An image, as far as the claims look at it: its dimensions, its pixel format, and what
  it shows. The pixels are produced by the toolkit from the synchronised scene, so the
  content is identified by the logical animation time of that scene (\<open>img_scene\<close>) and
  by the number of the render step that drew it (\<open>img_step\<close>, counted from one; zero
  for the null image of a default-constructed \<^verbatim>\<open>QImage\<close>).
\<close>

record qimage =
  img_size :: qsize
  img_format :: qformat
  img_scene :: int
  img_step :: nat

definition null_image :: qimage where
  "null_image = \<lparr>img_size = (0, 0), img_format = Format_Invalid, img_scene = 0, img_step = 0\<rparr>"

text \<open>
  A framebuffer object: its size, and a serial number that tells one allocation from
  the next.
\<close>

record fbo =
  fbo_id :: nat
  fbo_size :: qsize

section \<open>The render worker: \<^verbatim>\<open>QmlCoreRenderer\<close>\<close>

text \<open>
  \<^verbatim>\<open>qml_wrapper.cpp\<close>, lines 79--207. The worker lives on the render thread and
  handles the events posted to it one at a time, in the order of posting. The fields
  are those of the class; the context, surface, window and render control are handles
  of the toolkit that are set once by the facade and are not modelled, and neither is
  the pointer to the animation driver, which the worker stores and never reads. Three
  counters
  record what the worker did: \<open>w_wakes\<close> counts the calls of \<^verbatim>\<open>m_cond.wakeOne()\<close>,
  \<open>w_allocs\<close> the framebuffer objects created, \<open>w_renders\<close> the \<^verbatim>\<open>RENDER\<close> events
  handled. \<open>w_queue\<close> holds the posted events that are not handled yet.
\<close>

datatype worker_event = INIT | RENDER | RESIZE | STOP

record QmlCoreRenderer =
  w_fbo :: "fbo option"
  w_size :: qsize
  w_dpr :: real
  w_fps :: int
  w_format :: qformat
  w_image :: qimage
  w_queue :: "worker_event list"
  w_wakes :: nat
  w_allocs :: nat
  w_renders :: nat

text \<open>
  The constructor sets \<^verbatim>\<open>m_fbo\<close> to null. \<^verbatim>\<open>m_size\<close> is a default-constructed
  \<^verbatim>\<open>QSize\<close> and \<^verbatim>\<open>m_image\<close> a null image; the ratio, the frame rate and the format
  are left uninitialised by the C++ code and are given fixed values here, which the
  facade overwrites before the first render step.
\<close>

definition QmlCoreRenderer :: QmlCoreRenderer where
  "QmlCoreRenderer =
     \<lparr>w_fbo = None, w_size = (-1, -1), w_dpr = 0, w_fps = 0, w_format = Format_Invalid,
      w_image = null_image, w_queue = [], w_wakes = 0, w_allocs = 0, w_renders = 0\<rparr>"

text \<open>The setters and the getter of lines 102--108.\<close>

definition setSize :: "qsize \<Rightarrow> QmlCoreRenderer \<Rightarrow> QmlCoreRenderer" where
  "setSize sz w = w\<lparr>w_size := sz\<rparr>"

definition setDPR :: "real \<Rightarrow> QmlCoreRenderer \<Rightarrow> QmlCoreRenderer" where
  "setDPR v w = w\<lparr>w_dpr := v\<rparr>"

definition setFPS :: "int \<Rightarrow> QmlCoreRenderer \<Rightarrow> QmlCoreRenderer" where
  "setFPS v w = w\<lparr>w_fps := v\<rparr>"

definition setFormat :: "qformat \<Rightarrow> QmlCoreRenderer \<Rightarrow> QmlCoreRenderer" where
  "setFormat f w = w\<lparr>w_format := f\<rparr>"

definition getRenderedQImage :: "QmlCoreRenderer \<Rightarrow> qimage" where
  "getRenderedQImage w = w_image w"

text \<open>The four requests of lines 93--96 post an event to the worker.\<close>

definition requestInit :: "QmlCoreRenderer \<Rightarrow> QmlCoreRenderer" where
  "requestInit w = w\<lparr>w_queue := w_queue w @ [INIT]\<rparr>"

definition requestRender :: "QmlCoreRenderer \<Rightarrow> QmlCoreRenderer" where
  "requestRender w = w\<lparr>w_queue := w_queue w @ [RENDER]\<rparr>"

definition requestResize :: "QmlCoreRenderer \<Rightarrow> QmlCoreRenderer" where
  "requestResize w = w\<lparr>w_queue := w_queue w @ [RESIZE]\<rparr>"

definition requestStop :: "QmlCoreRenderer \<Rightarrow> QmlCoreRenderer" where
  "requestStop w = w\<lparr>w_queue := w_queue w @ [STOP]\<rparr>"

text \<open>
  \<^verbatim>\<open>ensureFbo\<close>, lines 129--144. The two leading assertions are checked in a debug
  build only (\<open>dbg\<close>); the assertion on the scene graph of the window concerns the
  toolkit and is left out.
\<close>

definition QmlCoreRenderer_ensureFbo :: "bool \<Rightarrow> QmlCoreRenderer \<Rightarrow> failure + QmlCoreRenderer" where
  "QmlCoreRenderer_ensureFbo dbg w =
     (if dbg \<and> qsize_isEmpty (w_size w) then Inl AssertionFailed
      else if dbg \<and> w_dpr w = 0 then Inl AssertionFailed
      else
        let w1 = (case w_fbo w of
                    Some f \<Rightarrow> if fbo_size f \<noteq> qsize_times (w_size w) (w_dpr w)
                              then w\<lparr>w_fbo := None\<rparr> else w
                  | None \<Rightarrow> w)
        in Inr (case w_fbo w1 of
                  None \<Rightarrow> w1\<lparr>w_fbo := Some \<lparr>fbo_id = w_allocs w1,
                                            fbo_size = qsize_times (w_size w1) (w_dpr w1)\<rparr>,
                              w_allocs := Suc (w_allocs w1)\<rparr>
                | Some f \<Rightarrow> w1))"

text \<open>
  \<^verbatim>\<open>render\<close>, lines 146--169. \<open>current\<close> is the result of
  \<^verbatim>\<open>m_context->makeCurrent\<close>, \<open>scene\<close> the logical time of the scene that
  \<^verbatim>\<open>sync()\<close> takes over from the blocked calling thread. The image is read back
  from the framebuffer, so it has the framebuffer's size.
\<close>

definition QmlCoreRenderer_render :: "bool \<Rightarrow> bool \<Rightarrow> int \<Rightarrow> QmlCoreRenderer \<Rightarrow> failure + QmlCoreRenderer" where
  "QmlCoreRenderer_render dbg current scene w =
     (if \<not> current then Inr w
      else case QmlCoreRenderer_ensureFbo dbg w of
        Inl e \<Rightarrow> Inl e
      | Inr w1 \<Rightarrow>
          (case w_fbo w1 of
             None \<Rightarrow> Inl NullDereference
           | Some f \<Rightarrow>
               Inr (w1\<lparr>w_image := \<lparr>img_size = fbo_size f, img_format = w_format w1,
                                     img_scene = scene, img_step = Suc (w_renders w1)\<rparr>,
                        w_wakes := Suc (w_wakes w1)\<rparr>)))"

text \<open>\<^verbatim>\<open>cleanup\<close>, lines 111--121, and \<^verbatim>\<open>init\<close>, lines 123--127.\<close>

definition QmlCoreRenderer_cleanup :: "QmlCoreRenderer \<Rightarrow> QmlCoreRenderer" where
  "QmlCoreRenderer_cleanup w = w\<lparr>w_fbo := None, w_wakes := Suc (w_wakes w)\<rparr>"

definition QmlCoreRenderer_init :: "QmlCoreRenderer \<Rightarrow> QmlCoreRenderer" where
  "QmlCoreRenderer_init w = w"

text \<open>
  \<^verbatim>\<open>event\<close>, lines 171--190: the dispatch on the event type. The mutex locker of
  the function releases the mutex on every return, also when \<^verbatim>\<open>render\<close> came back
  without unlocking it.
\<close>

definition QmlCoreRenderer_event :: "bool \<Rightarrow> bool \<Rightarrow> int \<Rightarrow> worker_event \<Rightarrow> QmlCoreRenderer \<Rightarrow> failure + QmlCoreRenderer" where
  "QmlCoreRenderer_event dbg current scene e w =
     (case e of
        INIT \<Rightarrow> Inr (QmlCoreRenderer_init w)
      | RENDER \<Rightarrow>
          (case QmlCoreRenderer_render dbg current scene w of
             Inl err \<Rightarrow> Inl err
           | Inr w1 \<Rightarrow> Inr (w1\<lparr>w_renders := Suc (w_renders w1)\<rparr>))
      | RESIZE \<Rightarrow> Inr w
      | STOP \<Rightarrow> Inr (QmlCoreRenderer_cleanup w))"

section \<open>The earlier worker: \<^verbatim>\<open>CoreRenderer\<close>\<close>

text \<open>
  \<^verbatim>\<open>corerenderer.h\<close> and its implementation file. This worker owns its animation
  driver, which \<^verbatim>\<open>init\<close> creates from the frame rate and \<^verbatim>\<open>render\<close> advances
  after the image is read back. In its \<^verbatim>\<open>ensureFbo\<close> the statement that drops a
  framebuffer of the wrong size is commented out, so the body of the first
  \<^verbatim>\<open>if\<close> is empty. The constructor initialises \<^verbatim>\<open>m_quit\<close> only; ratio,
  frame rate and format have no value until their setters are called, and the model
  starts them at zero and at the invalid format. \<open>c_wakes\<close>, \<open>c_allocs\<close> and
  \<open>c_renders\<close> count the signals on the condition variable, the framebuffers
  allocated and the \<^verbatim>\<open>RENDER\<close> events handled.
\<close>

record CoreRenderer =
  c_fbo :: "fbo option"
  c_size :: qsize
  c_dpr :: real
  c_fps :: int
  c_format :: qformat
  c_image :: qimage
  c_animationDriver :: "QmlAnimationDriver option"
  c_wakes :: nat
  c_allocs :: nat
  c_renders :: nat
  c_quit :: bool

definition CoreRenderer :: CoreRenderer where
  "CoreRenderer =
     \<lparr>c_fbo = None, c_size = (-1, -1), c_dpr = 0, c_fps = 0, c_format = Format_Invalid,
      c_image = null_image, c_animationDriver = None, c_wakes = 0, c_allocs = 0,
      c_renders = 0, c_quit = False\<rparr>"

definition CoreRenderer_setSize :: "qsize \<Rightarrow> CoreRenderer \<Rightarrow> CoreRenderer" where
  "CoreRenderer_setSize sz c = c\<lparr>c_size := sz\<rparr>"

definition CoreRenderer_setDPR :: "real \<Rightarrow> CoreRenderer \<Rightarrow> CoreRenderer" where
  "CoreRenderer_setDPR v c = c\<lparr>c_dpr := v\<rparr>"

definition CoreRenderer_setFPS :: "int \<Rightarrow> CoreRenderer \<Rightarrow> CoreRenderer" where
  "CoreRenderer_setFPS v c = c\<lparr>c_fps := v\<rparr>"

definition CoreRenderer_setFormat :: "qformat \<Rightarrow> CoreRenderer \<Rightarrow> CoreRenderer" where
  "CoreRenderer_setFormat f c = c\<lparr>c_format := f\<rparr>"

text \<open>
  \<^verbatim>\<open>init\<close>, \<^verbatim>\<open>ensureFbo\<close> and \<^verbatim>\<open>render\<close> of this worker. The assertion on the
  frame rate precedes the division in \<^verbatim>\<open>init\<close>.
\<close>

definition CoreRenderer_init :: "bool \<Rightarrow> CoreRenderer \<Rightarrow> failure + CoreRenderer" where
  "CoreRenderer_init dbg c =
     (if dbg \<and> \<not> 0 < c_fps c then Inl AssertionFailed
      else case c_div 1000 (c_fps c) of
        Inl e \<Rightarrow> Inl e
      | Inr step \<Rightarrow> Inr (c\<lparr>c_animationDriver := Some (QmlAnimationDriver step)\<rparr>))"

definition CoreRenderer_ensureFbo :: "bool \<Rightarrow> CoreRenderer \<Rightarrow> failure + CoreRenderer" where
  "CoreRenderer_ensureFbo dbg c =
     (if dbg \<and> qsize_isEmpty (c_size c) then Inl AssertionFailed
      else if dbg \<and> c_dpr c = 0 then Inl AssertionFailed
      else
        let c1 = (case c_fbo c of
                    Some f \<Rightarrow> if fbo_size f \<noteq> qsize_times (c_size c) (c_dpr c) then c else c
                  | None \<Rightarrow> c)
        in Inr (case c_fbo c1 of
                  None \<Rightarrow> c1\<lparr>c_fbo := Some \<lparr>fbo_id = c_allocs c1,
                                            fbo_size = qsize_times (c_size c1) (c_dpr c1)\<rparr>,
                              c_allocs := Suc (c_allocs c1)\<rparr>
                | Some f \<Rightarrow> c1))"

definition CoreRenderer_render :: "bool \<Rightarrow> bool \<Rightarrow> int \<Rightarrow> CoreRenderer \<Rightarrow> failure + CoreRenderer" where
  "CoreRenderer_render dbg current scene c =
     (if \<not> current then Inr c
      else case CoreRenderer_ensureFbo dbg c of
        Inl e \<Rightarrow> Inl e
      | Inr c1 \<Rightarrow>
          (case c_fbo c1 of
             None \<Rightarrow> Inl NullDereference
           | Some f \<Rightarrow>
               (let c2 = c1\<lparr>c_image := \<lparr>img_size = fbo_size f, img_format = c_format c1,
                                          img_scene = scene, img_step = Suc (c_renders c1)\<rparr>,
                             c_wakes := Suc (c_wakes c1)\<rparr>
                in case c_animationDriver c2 of
                     None \<Rightarrow> Inl NullDereference
                   | Some d \<Rightarrow> Inr (c2\<lparr>c_animationDriver := Some (advance d)\<rparr>))))"

text \<open>\<^verbatim>\<open>cleanup\<close>, \<^verbatim>\<open>event\<close> and \<^verbatim>\<open>aboutToQuit\<close> of this worker.\<close>

definition CoreRenderer_cleanup :: "CoreRenderer \<Rightarrow> CoreRenderer" where
  "CoreRenderer_cleanup c = c\<lparr>c_wakes := Suc (c_wakes c)\<rparr>"

definition CoreRenderer_event :: "bool \<Rightarrow> bool \<Rightarrow> int \<Rightarrow> worker_event \<Rightarrow> CoreRenderer \<Rightarrow> failure + CoreRenderer" where
  "CoreRenderer_event dbg current scene ev c =
     (case ev of
        INIT \<Rightarrow> CoreRenderer_init dbg c
      | RENDER \<Rightarrow>
          (case CoreRenderer_render dbg current scene c of
             Inl err \<Rightarrow> Inl err
           | Inr c1 \<Rightarrow> Inr (c1\<lparr>c_renders := Suc (c_renders c1)\<rparr>))
      | RESIZE \<Rightarrow> Inr c
      | STOP \<Rightarrow> Inr (CoreRenderer_cleanup c))"

definition aboutToQuit :: "CoreRenderer \<Rightarrow> CoreRenderer" where
  "aboutToQuit c = c\<lparr>c_quit := True\<rparr>"

section \<open>The scene host: \<^verbatim>\<open>QmlRenderer\<close>\<close>

text \<open>
  \<^verbatim>\<open>qml_wrapper.cpp\<close>, lines 210--505. What the toolkit and the platform decide is
  collected in an environment: whether the build checks \<^verbatim>\<open>Q_ASSERT\<close>, whether
  \<^verbatim>\<open>makeCurrent\<close> succeeds in the render step that follows \<open>n\<close> earlier ones, and
  what loading the scene document at a URL gives.
\<close>

datatype component_status = Null | Ready | Loading | Error

text \<open>What \<^verbatim>\<open>QQmlComponent::create()\<close> returns: nothing, an object that is not a
  visual item, or a visual item.\<close>

datatype created = NoObject | PlainObject | VisualItem

record qml_component =
  comp_status :: component_status
  comp_create :: created
  comp_status_created :: component_status

record environment =
  qt_debug :: bool
  makeCurrent :: "nat \<Rightarrow> bool"
  load :: "string \<Rightarrow> qml_component"

text \<open>
  A pointer field is null, points to a live object, or still holds the address of an
  object that was deleted.
\<close>

datatype 'a pointer = Nullptr | Valid 'a | Deleted

record qquickitem =
  item_width :: int
  item_height :: int

datatype renderStatus = NotRunning | Initialised

text \<open>
  The events of the calling thread that matter: the update request that
  \<^verbatim>\<open>renderAnimated\<close> posts to the facade, and the queued call of
  \<^verbatim>\<open>QEventLoop::quit\<close> that an emission of \<^verbatim>\<open>imageReady\<close> posts to the local
  event loop of \<^verbatim>\<open>render\<close>.
\<close>

datatype main_event = UpdateRequest | QuitCall

text \<open>
  The fields of the class that its functions read or write after construction (the
  handles of the toolkit, the thread, \<^verbatim>\<open>m_fbo\<close>, \<^verbatim>\<open>m_frame\<close> and the facade's
  own mutex and condition variable are left out), followed by the state of the
  toolkit that the facade changes: whether its animation driver is installed, whether
  its event filter is installed, and the events posted to the calling thread.
  \<open>advances\<close> counts the calls of \<^verbatim>\<open>m_animationDriver->advance()\<close>.
\<close>

record QmlRenderer =
  m_animationDriver :: "QmlAnimationDriver option"
  m_rootItem :: "qquickitem pointer"
  m_qmlComponent :: "qml_component pointer"
  m_corerenderer :: QmlCoreRenderer
  m_status :: renderStatus
  m_qmlFileUrl :: string
  m_dpr :: real
  m_duration :: int
  m_fps :: int
  m_currentFrame :: int
  m_framesCount :: int
  m_requestedFrame :: int
  m_size :: qsize
  m_ImageFormat :: qformat
  m_img :: qimage
  driver_installed :: bool
  filter_installed :: bool
  posted :: "main_event list"
  advances :: nat

text \<open>
  The constructor, lines 216--290. \<^verbatim>\<open>m_requestedFrame\<close> and \<^verbatim>\<open>m_ImageFormat\<close> are
  not initialised by the C++ code; both are assigned before they are read.
\<close>

definition QmlRenderer :: "string \<Rightarrow> int \<Rightarrow> int \<Rightarrow> QmlRenderer" where
  "QmlRenderer qmlFileUrlString fps duration =
     \<lparr>m_animationDriver = None, m_rootItem = Nullptr, m_qmlComponent = Nullptr,
      m_corerenderer = setFPS fps (setDPR 1 QmlCoreRenderer),
      m_status = NotRunning, m_qmlFileUrl = qmlFileUrlString, m_dpr = 1,
      m_duration = duration, m_fps = fps, m_currentFrame = 0,
      m_framesCount = c_int (fps * duration), m_requestedFrame = 0, m_size = (-1, -1),
      m_ImageFormat = Format_Invalid, m_img = null_image, driver_installed = False,
      filter_installed = False, posted = [], advances = 0\<rparr>"

text \<open>\<^verbatim>\<open>initDriver\<close>, lines 354--362, with its two integer divisions.\<close>

definition initDriver :: "QmlRenderer \<Rightarrow> failure + QmlRenderer" where
  "initDriver s =
     (let correctedFrames = c_int (m_framesCount s - 2) in
      case c_div correctedFrames (m_duration s) of
        Inl e \<Rightarrow> Inl e
      | Inr correctedFps \<Rightarrow>
          (case c_div 1000 correctedFps of
             Inl e \<Rightarrow> Inl e
           | Inr msPerStep \<Rightarrow>
               Inr (s\<lparr>m_animationDriver := Some (QmlAnimationDriver msPerStep),
                       driver_installed := True\<rparr>)))"

text \<open>\<^verbatim>\<open>resetDriver\<close>, lines 364--369.\<close>

definition resetDriver :: "QmlRenderer \<Rightarrow> failure + QmlRenderer" where
  "resetDriver s =
     (case m_animationDriver s of
        None \<Rightarrow> Inl NullDereference
      | Some d \<Rightarrow> Inr (s\<lparr>m_animationDriver := None, driver_installed := False\<rparr>))"

text \<open>\<^verbatim>\<open>checkQmlComponent\<close>, lines 430--440, on the status the component has at the
  moment of the call.\<close>

definition checkQmlComponent :: "component_status \<Rightarrow> bool" where
  "checkQmlComponent st = (st \<noteq> Error)"

text \<open>
  \<^verbatim>\<open>loadRootObject\<close>, lines 408--428. The result is the returned flag and the new
  state; \<^verbatim>\<open>m_rootItem\<close> is assigned only when the second check has passed.
\<close>

definition loadRootObject :: "environment \<Rightarrow> qml_component \<Rightarrow> QmlRenderer \<Rightarrow> failure + bool \<times> QmlRenderer" where
  "loadRootObject env component s =
     (if \<not> checkQmlComponent (comp_status component) then Inr (False, s)
      else if qt_debug env \<and> comp_create component = NoObject then Inl AssertionFailed
      else if \<not> checkQmlComponent (comp_status_created component) then Inr (False, s)
      else if comp_create component = VisualItem then
        Inr (True, s\<lparr>m_rootItem := Valid \<lparr>item_width = 0, item_height = 0\<rparr>\<rparr>)
      else Inr (False, s\<lparr>m_rootItem := Nullptr\<rparr>))"

text \<open>
  \<^verbatim>\<open>loadInput\<close>, lines 385--395. The flag that \<^verbatim>\<open>loadRootObject\<close> returns is
  looked at by an assertion only; the root item is used whatever the flag says.
\<close>

definition loadInput :: "environment \<Rightarrow> QmlRenderer \<Rightarrow> failure + QmlRenderer" where
  "loadInput env s =
     (let component = load env (m_qmlFileUrl s);
          s1 = s\<lparr>m_qmlComponent := Valid component\<rparr>
      in if qt_debug env \<and> comp_status component = Null then Inl AssertionFailed
         else case loadRootObject env component s1 of
           Inl e \<Rightarrow> Inl e
         | Inr (loaded, s2) \<Rightarrow>
             if qt_debug env \<and> \<not> loaded then Inl AssertionFailed
             else if qt_debug env \<and> qsize_isEmpty (m_size s2) then Inl AssertionFailed
             else (case m_rootItem s2 of
                     Nullptr \<Rightarrow> Inl NullDereference
                   | Deleted \<Rightarrow> Inl DanglingPointer
                   | Valid item \<Rightarrow>
                       Inr (s2\<lparr>m_rootItem := Valid (item\<lparr>item_width := fst (m_size s2),
                                                            item_height := snd (m_size s2)\<rparr>)\<rparr>)))"

text \<open>\<^verbatim>\<open>init\<close>, lines 371--383.\<close>

definition init :: "environment \<Rightarrow> int \<Rightarrow> int \<Rightarrow> qformat \<Rightarrow> QmlRenderer \<Rightarrow> failure + QmlRenderer" where
  "init env width height imageFormat s =
     (if m_status s = NotRunning \<or> 0 < m_duration s then
        (case initDriver s of
           Inl e \<Rightarrow> Inl e
         | Inr s1 \<Rightarrow>
             (let s2 = s1\<lparr>m_size := (width, height), m_ImageFormat := imageFormat\<rparr>;
                  s3 = s2\<lparr>m_corerenderer :=
                              setFormat (m_ImageFormat s2)
                                (setSize (m_size s2) (m_corerenderer s2))\<rparr>
              in case loadInput env s3 of
                   Inl e \<Rightarrow> Inl e
                 | Inr s4 \<Rightarrow>
                     Inr (s4\<lparr>m_corerenderer := requestInit (m_corerenderer s4),
                              m_status := Initialised\<rparr>)))
      else Inr s)"

text \<open>
  The rendezvous with the worker. While the calling thread waits on the condition
  variable, the worker handles its posted events in order. The wait ends with the
  first event whose handler signals the condition; when the queue runs empty without
  a signal, the calling thread stays blocked. The scene that a render step
  synchronises is the one the animation system has reached: its logical time is the
  elapsed time of the installed driver.
\<close>

fun handle_events :: "environment \<Rightarrow> int \<Rightarrow> worker_event list \<Rightarrow> QmlCoreRenderer \<Rightarrow> failure + QmlCoreRenderer" where
  "handle_events env scene [] w = Inl BlockedForever"
| "handle_events env scene (e # es) w =
     (case QmlCoreRenderer_event (qt_debug env) (makeCurrent env (w_renders w)) scene e w of
        Inl err \<Rightarrow> Inl err
      | Inr w1 \<Rightarrow>
          if w_wakes w1 \<noteq> w_wakes w then Inr (w1\<lparr>w_queue := es\<rparr>)
          else handle_events env scene es w1)"

definition scene_time :: "QmlRenderer \<Rightarrow> int" where
  "scene_time s =
     (case m_animationDriver s of
        Some d \<Rightarrow> if driver_installed s then elapsed d else 0
      | None \<Rightarrow> 0)"

text \<open>\<^verbatim>\<open>polishSyncRender\<close>, lines 397--406.\<close>

definition polishSyncRender :: "environment \<Rightarrow> QmlRenderer \<Rightarrow> failure + QmlRenderer" where
  "polishSyncRender env s =
     (let w = requestRender (m_corerenderer s) in
      case handle_events env (scene_time s) (w_queue w) w of
        Inl e \<Rightarrow> Inl e
      | Inr w1 \<Rightarrow> Inr (s\<lparr>m_corerenderer := w1\<rparr>))"

text \<open>\<^verbatim>\<open>renderStatic\<close>, lines 442--446.\<close>

definition renderStatic :: "environment \<Rightarrow> QmlRenderer \<Rightarrow> failure + QmlRenderer" where
  "renderStatic env s =
     (case polishSyncRender env s of
        Inl e \<Rightarrow> Inl e
      | Inr s1 \<Rightarrow> Inr (s1\<lparr>m_img := getRenderedQImage (m_corerenderer s1)\<rparr>))"

text \<open>
  \<^verbatim>\<open>renderAnimated\<close>, lines 448--469. An emission of \<^verbatim>\<open>imageReady\<close> posts the
  queued call of \<^verbatim>\<open>quit\<close>.
\<close>

definition renderAnimated :: "environment \<Rightarrow> QmlRenderer \<Rightarrow> failure + QmlRenderer" where
  "renderAnimated env s =
     (case polishSyncRender env s of
        Inl e \<Rightarrow> Inl e
      | Inr s1 \<Rightarrow>
          (case m_animationDriver s1 of
             None \<Rightarrow> Inl NullDereference
           | Some d \<Rightarrow>
               (let s2 = s1\<lparr>m_animationDriver := Some (advance d),
                             advances := Suc (advances s1)\<rparr>;
                    s3 = (if m_currentFrame s2 = m_requestedFrame s2
                          then s2\<lparr>m_img := getRenderedQImage (m_corerenderer s2),
                                   posted := posted s2 @ [QuitCall]\<rparr>
                          else s2);
                    s4 = s3\<lparr>m_currentFrame := m_currentFrame s3 + 1\<rparr>
                in Inr (if m_currentFrame s4 < m_framesCount s4
                        then s4\<lparr>posted := posted s4 @ [UpdateRequest]\<rparr>
                        else s4\<lparr>m_img := getRenderedQImage (m_corerenderer s4),
                                 posted := posted s4 @ [QuitCall]\<rparr>))))"

text \<open>\<^verbatim>\<open>eventFilter\<close>, lines 343--351. Other events go to the default handler.\<close>

definition eventFilter :: "environment \<Rightarrow> main_event \<Rightarrow> QmlRenderer \<Rightarrow> failure + QmlRenderer" where
  "eventFilter env ev s = (if ev = UpdateRequest then renderAnimated env s else Inr s)"

text \<open>
  \<^verbatim>\<open>loop.exec()\<close> with the event filter installed. The loop of the toolkit makes
  passes until a call of \<^verbatim>\<open>quit\<close> has been delivered. One pass delivers, in
  order, the events that were posted when the pass began; an event that is posted
  during a pass waits for the next one. So an update request that was posted before a
  pass still runs \<^verbatim>\<open>renderAnimated\<close> when that pass has delivered a call of
  \<^verbatim>\<open>quit\<close> ahead of it. \<open>deliver\<close> is one pass; its flag tells whether the loop
  has been told to leave. With nothing posted the loop waits for an event that no one
  will post.
\<close>

fun deliver :: "environment \<Rightarrow> main_event list \<Rightarrow> bool \<Rightarrow> QmlRenderer \<Rightarrow> failure + bool \<times> QmlRenderer" where
  "deliver env [] leave s = Inr (leave, s)"
| "deliver env (QuitCall # q) leave s = deliver env q True s"
| "deliver env (UpdateRequest # q) leave s =
     (if filter_installed s then
        (case eventFilter env UpdateRequest s of
           Inl e \<Rightarrow> Inl e
         | Inr s1 \<Rightarrow> deliver env q leave s1)
      else deliver env q leave s)"

lemma renderAnimated_frames:
  assumes "renderAnimated env s = Inr s1"
  shows "m_framesCount s1 = m_framesCount s"
    and "m_currentFrame s1 = m_currentFrame s + 1"
    and "filter_installed s1 = filter_installed s"
    and "set (posted s) \<subseteq> set (posted s1)"
    and "m_framesCount s \<le> m_currentFrame s + 1 \<Longrightarrow> QuitCall \<in> set (posted s1)"
  using assms
  by (auto simp: renderAnimated_def polishSyncRender_def Let_def
           split: sum.splits option.splits if_splits)

lemma deliver_frames:
  "deliver env q leave s = Inr (leave', s') \<Longrightarrow>
     m_framesCount s' = m_framesCount s \<and> filter_installed s' = filter_installed s
     \<and> m_currentFrame s \<le> m_currentFrame s'
     \<and> set (posted s) \<subseteq> set (posted s')
     \<and> (leave' \<longleftrightarrow> leave \<or> QuitCall \<in> set q)
     \<and> (\<not> filter_installed s \<longrightarrow> s' = s)
     \<and> (filter_installed s \<and> UpdateRequest \<in> set q \<longrightarrow> m_currentFrame s < m_currentFrame s')
     \<and> (m_currentFrame s < m_currentFrame s' \<and> m_framesCount s \<le> m_currentFrame s'
          \<longrightarrow> QuitCall \<in> set (posted s'))"
proof (induction env q leave s rule: deliver.induct)
  case (1 env leave s)
  then show ?case by simp
next
  case (2 env q leave s)
  then show ?case by simp
next
  case (3 env q leave s)
  show ?case
  proof (cases "filter_installed s")
    case False
    then show ?thesis using 3 by simp
  next
    case True
    with "3.prems" obtain s1 where ra: "renderAnimated env s = Inr s1"
      and d: "deliver env q leave s1 = Inr (leave', s')"
      by (auto simp: eventFilter_def split: sum.splits)
    note f = renderAnimated_frames [OF ra]
    have ih: "m_framesCount s' = m_framesCount s1 \<and> filter_installed s' = filter_installed s1
     \<and> m_currentFrame s1 \<le> m_currentFrame s'
     \<and> set (posted s1) \<subseteq> set (posted s')
     \<and> (leave' \<longleftrightarrow> leave \<or> QuitCall \<in> set q)
     \<and> (m_currentFrame s1 < m_currentFrame s' \<and> m_framesCount s1 \<le> m_currentFrame s'
          \<longrightarrow> QuitCall \<in> set (posted s'))"
      using "3.IH"(1) [OF True _ d] ra by (simp add: eventFilter_def)
    show ?thesis
    proof (cases "m_currentFrame s1 < m_currentFrame s'")
      case True
      then show ?thesis using ih f \<open>filter_installed s\<close> by auto
    next
      case False
      then have "m_currentFrame s' = m_currentFrame s + 1" using ih f by simp
      then show ?thesis using ih f \<open>filter_installed s\<close> by auto
    qed
  qed
qed

function loop_exec :: "environment \<Rightarrow> QmlRenderer \<Rightarrow> failure + QmlRenderer" where
  "loop_exec env s =
     (if posted s = [] then Inl BlockedForever
      else
        (case deliver env (posted s) False (s\<lparr>posted := []\<rparr>) of
           Inl e \<Rightarrow> Inl e
         | Inr (leave, s1) \<Rightarrow> if leave then Inr s1 else loop_exec env s1))"
  by pat_completeness auto
termination
proof (relation "measures [\<lambda>(env, s). nat (m_framesCount s - m_currentFrame s),
                           \<lambda>(env, s). if QuitCall \<in> set (posted s) then 0
                                       else Suc (length (posted s))]", goal_cases)
  case 1
  show ?case by simp
next
  case (2 env s r leave s1)
  then have d: "deliver env (posted s) False (s\<lparr>posted := []\<rparr>) = Inr (False, s1)"
    by simp
  note f = deliver_frames [OF d]
  from f have noquit: "QuitCall \<notin> set (posted s)" by simp
  from 2 obtain ev q where p: "posted s = ev # q" by (cases "posted s") auto
  with noquit have u: "UpdateRequest \<in> set (posted s)" by (cases ev) auto
  show ?case
  proof (cases "filter_installed s")
    case False
    then have "s1 = s\<lparr>posted := []\<rparr>" using f by simp
    then show ?thesis using noquit p by simp
  next
    case True
    then have lt: "m_currentFrame s < m_currentFrame s1" using f u by simp
    show ?thesis
    proof (cases "m_currentFrame s < m_framesCount s")
      case True
      then show ?thesis using lt f by simp
    next
      case False
      then have "QuitCall \<in> set (posted s1)" using lt f by simp
      then show ?thesis using False lt f noquit by simp
    qed
  qed
qed

declare loop_exec.simps [simp del]

text \<open>
  The static \<^verbatim>\<open>render\<close>, lines 314--319, and the animated \<^verbatim>\<open>render\<close> with a
  frame index, lines 321--340. The local event loop is destroyed on return, and with
  it the calls of \<^verbatim>\<open>quit\<close> that are still queued for it; update requests that
  are still posted stay with the facade. The two \<^verbatim>\<open>delete\<close> statements leave the
  addresses in the fields.
\<close>

definition render :: "environment \<Rightarrow> int \<Rightarrow> int \<Rightarrow> qformat \<Rightarrow> QmlRenderer \<Rightarrow> failure + qimage \<times> QmlRenderer" where
  "render env width height format s =
     (case init env width height format s of
        Inl e \<Rightarrow> Inl e
      | Inr s1 \<Rightarrow>
          (case renderStatic env s1 of
             Inl e \<Rightarrow> Inl e
           | Inr s2 \<Rightarrow> Inr (m_img s2, s2)))"

definition delete_pointer :: "'a pointer \<Rightarrow> failure + 'a pointer" where
  "delete_pointer p = (case p of Nullptr \<Rightarrow> Inr Nullptr | Valid x \<Rightarrow> Inr Deleted | Deleted \<Rightarrow> Inl DanglingPointer)"

definition render_frame :: "environment \<Rightarrow> int \<Rightarrow> int \<Rightarrow> qformat \<Rightarrow> int \<Rightarrow> QmlRenderer \<Rightarrow> failure + qimage \<times> QmlRenderer" where
  "render_frame env width height format frame s =
     (case init env width height format (s\<lparr>m_requestedFrame := frame, m_currentFrame := 0\<rparr>) of
        Inl e \<Rightarrow> Inl e
      | Inr s1 \<Rightarrow>
          (case renderAnimated env (s1\<lparr>filter_installed := True\<rparr>) of
             Inl e \<Rightarrow> Inl e
           | Inr s2 \<Rightarrow>
               (case loop_exec env s2 of
                  Inl e \<Rightarrow> Inl e
                | Inr s3 \<Rightarrow>
                    (case resetDriver s3 of
                       Inl e \<Rightarrow> Inl e
                     | Inr s4 \<Rightarrow>
                         (case delete_pointer (m_qmlComponent s4) of
                            Inl e \<Rightarrow> Inl e
                          | Inr c \<Rightarrow>
                              (case delete_pointer (m_rootItem s4) of
                                 Inl e \<Rightarrow> Inl e
                               | Inr r \<Rightarrow>
                                   Inr (m_img s4,
                                        s4\<lparr>filter_installed := False,
                                            m_qmlComponent := c, m_rootItem := r,
                                            posted := filter (\<lambda>e. e \<noteq> QuitCall) (posted s4)\<rparr>)))))))"

section \<open>Notions used in the statements about the scene host\<close>

text \<open>
  The image that a render step of the worker produces from a scene; a worker whose
  pending events do not signal and whose size passes the assertions; two workers that
  agree on size, ratio and format.
\<close>

definition rendered_image :: "QmlCoreRenderer \<Rightarrow> int \<Rightarrow> qimage" where
  "rendered_image w scene =
     \<lparr>img_size = qsize_times (w_size w) (w_dpr w), img_format = w_format w,
      img_scene = scene, img_step = Suc (w_renders w)\<rparr>"

definition worker_ready :: "environment \<Rightarrow> QmlCoreRenderer \<Rightarrow> bool" where
  "worker_ready env w \<longleftrightarrow>
     list_all (\<lambda>e. e = INIT \<or> e = RESIZE) (w_queue w)
     \<and> (qt_debug env \<longrightarrow> \<not> qsize_isEmpty (w_size w) \<and> w_dpr w \<noteq> 0)"

definition same_setup :: "QmlCoreRenderer \<Rightarrow> QmlCoreRenderer \<Rightarrow> bool" where
  "same_setup w w' \<longleftrightarrow> w_size w' = w_size w \<and> w_dpr w' = w_dpr w \<and> w_format w' = w_format w"

text \<open>
  The step of the installed driver, and a facade in the middle of an animated render:
  the worker is ready, the driver exists and is installed, the event filter is in
  place. \<open>frame_image_at s k\<close> is the image of the render step that follows \<open>k\<close>
  further steps from \<open>s\<close>.
\<close>

definition driver_step :: "QmlRenderer \<Rightarrow> int" where
  "driver_step s = (case m_animationDriver s of Some d \<Rightarrow> m_step d | None \<Rightarrow> 0)"

definition running :: "environment \<Rightarrow> QmlRenderer \<Rightarrow> bool" where
  "running env s \<longleftrightarrow>
     worker_ready env (m_corerenderer s) \<and> m_animationDriver s \<noteq> None
     \<and> driver_installed s \<and> filter_installed s"

definition frame_image_at :: "QmlRenderer \<Rightarrow> nat \<Rightarrow> qimage" where
  "frame_image_at s k =
     \<lparr>img_size = qsize_times (w_size (m_corerenderer s)) (w_dpr (m_corerenderer s)),
      img_format = w_format (m_corerenderer s),
      img_scene = scene_time s + int k * driver_step s,
      img_step = Suc (w_renders (m_corerenderer s) + k)\<rparr>"

text \<open>
  A scene document that loads into a visual item. For a request of frame \<open>frame\<close> on
  a session of \<open>framesCount\<close> frames, \<open>render_steps\<close> is the number of calls of
  \<^verbatim>\<open>renderAnimated\<close> that the request makes, and \<open>shown_step\<close> is the number of
  calls that precede the one whose image the request returns. A request within the
  frame count that is not for the last frame makes one call more than its index plus
  one, because the update request for the next frame is delivered in the same pass as
  the call of \<^verbatim>\<open>quit\<close>; if that next frame is the last one, its image replaces the
  requested one.
\<close>

definition loads :: "environment \<Rightarrow> string \<Rightarrow> bool" where
  "loads env url \<longleftrightarrow>
     comp_status (load env url) \<noteq> Null \<and> comp_status (load env url) \<noteq> Error
     \<and> comp_create (load env url) = VisualItem
     \<and> comp_status_created (load env url) \<noteq> Error"

definition render_steps :: "int \<Rightarrow> int \<Rightarrow> nat" where
  "render_steps framesCount frame =
     (if 0 \<le> frame \<and> frame + 1 < framesCount then nat frame + 2
      else nat (max framesCount 1))"

definition shown_step :: "int \<Rightarrow> int \<Rightarrow> nat" where
  "shown_step framesCount frame =
     (if 0 \<le> frame \<and> frame + 2 < framesCount then nat frame
      else nat (max framesCount 1) - 1)"

section \<open>The producer: \<^verbatim>\<open>read_qml\<close>, \<^verbatim>\<open>renderKdenliveTitle\<close>, \<^verbatim>\<open>producer_get_image\<close>\<close>

text \<open>
  The later version of \<^verbatim>\<open>producer_qml.cpp\<close> (the one whose \<^verbatim>\<open>read_qml\<close> takes the
  profile) together with \<^verbatim>\<open>renderKdenliveTitle\<close> of \<^verbatim>\<open>qml_wrapper.cpp\<close>, lines
  593--708.

  Memory of the frame pool is a store of blocks. \<^verbatim>\<open>mlt_pool_alloc\<close> hands out the
  next unused block number, so a block number below \<open>next_block\<close> is an allocated
  block, and a pointer is a block number or null. The pool does not clear a block:
  what a new block holds is whatever the pool has there (\<open>pool_content\<close>, byte by
  byte), and only what the code writes afterwards is known. Giving blocks back to the
  pool is not modelled, and neither are reads and writes past the end of a block. The
  world also keeps the paths of the files that have been opened for reading, in the
  order of opening.
\<close>

type_synonym byte = "8 word"

record world =
  blocks :: "nat \<Rightarrow> byte list"
  next_block :: nat
  pool_content :: "nat \<Rightarrow> nat \<Rightarrow> byte"
  opened :: "string list"

definition fresh_block :: "world \<Rightarrow> nat \<Rightarrow> int \<Rightarrow> byte list" where
  "fresh_block wd a n = map (pool_content wd a) [0..<nat n]"

definition mlt_pool_alloc :: "int \<Rightarrow> world \<Rightarrow> nat \<times> world" where
  "mlt_pool_alloc n wd =
     (next_block wd,
      wd\<lparr>blocks := (blocks wd)(next_block wd := fresh_block wd (next_block wd) n),
         next_block := Suc (next_block wd)\<rparr>)"

definition write_bytes :: "nat \<Rightarrow> byte list \<Rightarrow> int \<Rightarrow> world \<Rightarrow> world" where
  "write_bytes dst src n wd =
     wd\<lparr>blocks := (blocks wd)(dst := take (nat n) src @ drop (nat n) (blocks wd dst))\<rparr>"

definition memcpy :: "nat \<Rightarrow> nat \<Rightarrow> int \<Rightarrow> world \<Rightarrow> world" where
  "memcpy dst src n wd = write_bytes dst (blocks wd src) n wd"

datatype mlt_image_format =
    mlt_image_none
  | mlt_image_rgb24
  | mlt_image_rgb24a
  | mlt_image_yuv422
  | mlt_image_yuv420p
  | mlt_image_opengl
  | mlt_image_glsl
  | mlt_image_glsl_texture

text \<open>
  The properties of the producer that the three functions read or write. An integer
  property that is not set reads as zero; for \<^verbatim>\<open>duration\<close> the code also asks
  whether the property is set at all.
\<close>

record mlt_properties =
  force_reload :: int
  duration :: "int option"
  resource :: string
  qmldata :: "string option"
  qrenderer :: "QmlRenderer option"
  cached_image :: "nat option"
  cached_buffer :: "nat option"
  cached_alpha :: "nat option"

text \<open>The fields of \<^verbatim>\<open>struct producer_ktitle_qml_s\<close> that the code uses.\<close>

record producer_ktitle_qml =
  parent :: mlt_properties
  rgba_image :: "nat option"
  current_image :: "nat option"
  current_alpha :: "nat option"
  current_width :: int
  current_height :: int
  format :: mlt_image_format

text \<open>The frame: its image and alpha data and the properties the code looks at.\<close>

record mlt_frame =
  frame_image :: "nat option"
  frame_alpha :: "nat option"
  frame_format :: mlt_image_format
  frame_width :: int
  frame_height :: int
  rescale_width :: int
  rescale_height :: int
  original_position :: int

text \<open>
  What the framework, the toolkit and the file system contribute: the content of a
  file (or none when the stream cannot be opened), the duration lookup
  \<^verbatim>\<open>traverseQml\<close>, whose definition is not part of the sources at hand and which gets
  the properties only, the frame rate of the profile, whether the application object
  could be created, the environment of the render session, the bytes of a rendered
  image, the packing into the framework's RGBA layout, the size of an image of a
  given format, and the format conversion of \<^verbatim>\<open>mlt_frame_get_image\<close>, which maps
  the bytes, the format they have, the format wanted and the dimensions to the
  converted bytes with their format and dimensions, or to nothing.
\<close>

record producer_env =
  read_file :: "string \<Rightarrow> string option"
  traverseQml :: "mlt_properties \<Rightarrow> mlt_properties"
  profile_fps :: real
  createQApplicationIfNeeded :: bool
  render_env :: environment
  constBits :: "qimage \<Rightarrow> byte list"
  convert_qimage_to_mlt_rgba :: "byte list \<Rightarrow> int \<Rightarrow> int \<Rightarrow> byte list"
  mlt_image_format_size :: "mlt_image_format \<Rightarrow> int \<Rightarrow> int \<Rightarrow> int"
  convert_image :: "byte list \<Rightarrow> mlt_image_format \<Rightarrow> mlt_image_format \<Rightarrow> int \<Rightarrow> int
                    \<Rightarrow> (byte list \<times> mlt_image_format \<times> int \<times> int) option"

text \<open>
  \<^verbatim>\<open>read_qml\<close>, lines 244--275 of the later version. The function opens the
  resource file; a stream that cannot be opened makes it return at once. Otherwise the
  whole content of the file becomes the property \<^verbatim>\<open>_qmldata\<close>. A document that
  does not compile makes the function return then; for one that compiles the duration
  is set to zero and \<^verbatim>\<open>traverseQml\<close> runs on the properties.
\<close>

definition read_qml :: "producer_env \<Rightarrow> world \<Rightarrow> mlt_properties \<Rightarrow> world \<times> mlt_properties" where
  "read_qml penv wd props =
     (let wd1 = wd\<lparr>opened := opened wd @ [resource props]\<rparr> in
      case read_file penv (resource props) of
        None \<Rightarrow> (wd1, props)
      | Some str \<Rightarrow>
          (let props1 = props\<lparr>qmldata := Some str\<rparr> in
           if comp_status (load (render_env penv) (resource props1)) = Error
           then (wd1, props1)
           else (wd1, traverseQml penv (props1\<lparr>duration := Some 0\<rparr>))))"

text \<open>The conversion of the \<^verbatim>\<open>double\<close> frame rate to the \<^verbatim>\<open>int\<close> parameter of the
  constructor truncates.\<close>

definition double_to_int :: "real \<Rightarrow> int" where
  "double_to_int x = (if 0 \<le> x then \<lfloor>x\<rfloor> else \<lceil>x\<rceil>)"

text \<open>
  The world, the producer and the frame are the three objects that
  \<^verbatim>\<open>renderKdenliveTitle\<close> and \<^verbatim>\<open>producer_get_image\<close> change.
\<close>

record producer_state =
  st_world :: world
  st_self :: producer_ktitle_qml
  st_frame :: mlt_frame

text \<open>
  The statements of \<^verbatim>\<open>renderKdenliveTitle\<close> (\<^verbatim>\<open>qml_wrapper.cpp\<close>, lines 593--708)
  in groups. Lines 637--646 allocate \<^verbatim>\<open>rgba_image\<close>, wrap it in an image of format
  \<^verbatim>\<open>Format_RGBA8888\<close> (the branch for Qt 5.2 and later) and clear it.
\<close>

definition alloc_rgba_image :: "int \<Rightarrow> producer_state \<Rightarrow> producer_state" where
  "alloc_rgba_image image_size st =
     (let (rgba, wd1) = mlt_pool_alloc image_size (st_world st)
      in st\<lparr>st_world := write_bytes rgba (replicate (nat image_size) 0) image_size wd1,
            st_self := (st_self st)\<lparr>rgba_image := Some rgba\<rparr>\<rparr>)"

text \<open>
  Lines 654--656 copy the rendered pixels into that block and pack them.
  \<^verbatim>\<open>constBits\<close> of an image without pixels (a default-constructed image, or one
  of an empty size) is the null pointer, and copying a positive number of bytes from
  there fails.
\<close>

definition rendered_bits :: "producer_env \<Rightarrow> qimage \<Rightarrow> byte list option" where
  "rendered_bits penv img =
     (if qsize_isEmpty (img_size img) then None else Some (constBits penv img))"

definition store_rendered :: "producer_env \<Rightarrow> byte list option \<Rightarrow> int \<Rightarrow> int \<Rightarrow> producer_state \<Rightarrow> failure + producer_state" where
  "store_rendered penv bits width height st =
     (case rgba_image (st_self st) of
        None \<Rightarrow> Inl NullDereference
      | Some rgba \<Rightarrow>
          (case bits of
             None \<Rightarrow>
               if width * height * 4 \<noteq> 0 then Inl NullDereference
               else Inr (st\<lparr>st_world :=
                              (st_world st)\<lparr>blocks := (blocks (st_world st))
                                 (rgba := convert_qimage_to_mlt_rgba penv
                                            (blocks (st_world st) rgba) width height)\<rparr>,
                            st_self := (st_self st)\<lparr>format := mlt_image_rgb24a\<rparr>\<rparr>)
           | Some src \<Rightarrow>
               (let wd1 = write_bytes rgba src (width * height * 4) (st_world st);
                    wd2 = wd1\<lparr>blocks := (blocks wd1)
                                 (rgba := convert_qimage_to_mlt_rgba penv (blocks wd1 rgba) width height)\<rparr>
                in Inr (st\<lparr>st_world := wd2,
                           st_self := (st_self st)\<lparr>format := mlt_image_rgb24a\<rparr>\<rparr>))))"

text \<open>
  The three statements that occur at lines 657--661, 678--680 and 695--697: allocate
  \<^verbatim>\<open>current_image\<close>, fill it from a source block, and store it as
  \<^verbatim>\<open>_cached_image\<close>. The two at line 660 store \<^verbatim>\<open>rgba_image\<close> as
  \<^verbatim>\<open>_cached_buffer\<close>.
\<close>

definition cache_image :: "nat option \<Rightarrow> int \<Rightarrow> producer_state \<Rightarrow> failure + producer_state" where
  "cache_image src n st =
     (case src of
        None \<Rightarrow> Inl NullDereference
      | Some b \<Rightarrow>
          (let (cur, wd1) = mlt_pool_alloc n (st_world st);
               wd2 = memcpy cur b n wd1
           in Inr (st\<lparr>st_world := wd2,
                      st_self := (st_self st)
                        \<lparr>current_image := Some cur,
                         parent := (parent (st_self st))\<lparr>cached_image := Some cur\<rparr>\<rparr>\<rparr>)))"

definition cache_buffer :: "producer_state \<Rightarrow> producer_state" where
  "cache_buffer st =
     st\<lparr>st_self := (st_self st)
          \<lparr>parent := (parent (st_self st))\<lparr>cached_buffer := rgba_image (st_self st)\<rparr>\<rparr>\<rparr>"

text \<open>Lines 666--670 and 699--703: the alpha channel of the frame, when it has one, is
  copied and cached.\<close>

definition cache_alpha :: "int \<Rightarrow> producer_state \<Rightarrow> producer_state" where
  "cache_alpha n st =
     (case frame_alpha (st_frame st) of
        None \<Rightarrow> st
      | Some alpha \<Rightarrow>
          (let (al, wd1) = mlt_pool_alloc n (st_world st);
               wd2 = memcpy al alpha n wd1
           in st\<lparr>st_world := wd2,
                 st_self := (st_self st)
                   \<lparr>current_alpha := Some al,
                    parent := (parent (st_self st))\<lparr>cached_alpha := Some al\<rparr>\<rparr>\<rparr>))"

text \<open>
  Lines 637--670 as a whole, entered with the renderer to use. The renderer is an
  object behind a pointer, so its new state goes back into the property.
\<close>

definition set_qrenderer :: "QmlRenderer option \<Rightarrow> producer_state \<Rightarrow> producer_state" where
  "set_qrenderer r st =
     st\<lparr>st_self := (st_self st)\<lparr>parent := (parent (st_self st))\<lparr>qrenderer := r\<rparr>\<rparr>\<rparr>"

definition set_current_size :: "int \<Rightarrow> int \<Rightarrow> producer_state \<Rightarrow> producer_state" where
  "set_current_size width height st =
     st\<lparr>st_self := (st_self st)\<lparr>current_width := width, current_height := height\<rparr>\<rparr>"

definition render_title :: "producer_env \<Rightarrow> QmlRenderer \<Rightarrow> int \<Rightarrow> int \<Rightarrow> int \<Rightarrow> bool \<Rightarrow> producer_state \<Rightarrow> failure + producer_state" where
  "render_title penv renderer width height position animated st =
     (let image_size = width * height * 4;
          st1 = alloc_rgba_image image_size st
      in and_then (if animated
                   then render_frame (render_env penv) width height Format_RGBA8888 position renderer
                   else render (render_env penv) width height Format_RGBA8888 renderer)
           (\<lambda>(rendered_img, renderer1).
         and_then (store_rendered penv (rendered_bits penv rendered_img) width height
                     (set_qrenderer (Some renderer1) st1))
           (\<lambda>st3.
         and_then (cache_image (rgba_image (st_self st3)) image_size st3)
           (\<lambda>st4.
         Inr (cache_alpha (width * height) (set_current_size width height (cache_buffer st4)))))))"

text \<open>
  Lines 685--690: the image of the frame is set to the cached image and converted by
  \<^verbatim>\<open>mlt_frame_get_image\<close>. The result is the buffer, format and dimensions that
  the call leaves in its output parameters; a converted image is a new block of the
  frame.
\<close>

definition bytes_at :: "world \<Rightarrow> nat option \<Rightarrow> byte list" where
  "bytes_at wd p = (case p of None \<Rightarrow> [] | Some a \<Rightarrow> blocks wd a)"

definition frame_get_image :: "producer_env \<Rightarrow> mlt_image_format \<Rightarrow> int \<Rightarrow> int \<Rightarrow> producer_state \<Rightarrow> (nat option \<times> mlt_image_format \<times> int \<times> int) \<times> producer_state" where
  "frame_get_image penv fmt width height st =
     (case convert_image penv (bytes_at (st_world st) (frame_image (st_frame st)))
             (frame_format (st_frame st)) fmt width height of
        None \<Rightarrow> ((None, fmt, width, height), st)
      | Some (bytes, fmt', width', height') \<Rightarrow>
          (let (buffer, wd1) = mlt_pool_alloc (int (length bytes)) (st_world st);
               wd2 = write_bytes buffer bytes (int (length bytes)) wd1
           in ((Some buffer, fmt', width', height'),
               st\<lparr>st_world := wd2,
                  st_frame := (st_frame st)\<lparr>frame_image := Some buffer, frame_format := fmt',
                                            frame_width := width', frame_height := height'\<rparr>\<rparr>)))"

text \<open>Lines 706--707.\<close>

definition set_frame_size :: "producer_state \<Rightarrow> producer_state" where
  "set_frame_size st =
     st\<lparr>st_frame := (st_frame st)\<lparr>frame_width := current_width (st_self st),
                                  frame_height := current_height (st_self st)\<rparr>\<rparr>"

text \<open>
  Lines 672--707: the conversion to the requested format. \<open>revert_to_rgba\<close> is lines
  675--682, \<open>convert_frame\<close> lines 684--698; the latter also yields the dimensions that
  \<^verbatim>\<open>mlt_frame_get_image\<close> left in \<^verbatim>\<open>width\<close> and \<^verbatim>\<open>height\<close>.
\<close>

definition set_format :: "mlt_image_format \<Rightarrow> producer_state \<Rightarrow> producer_state" where
  "set_format f st = st\<lparr>st_self := (st_self st)\<lparr>format := f\<rparr>\<rparr>"

definition revert_to_rgba :: "int \<Rightarrow> producer_state \<Rightarrow> failure + producer_state" where
  "revert_to_rgba image_size st =
     (if format (st_self st) \<noteq> mlt_image_rgb24a
      then and_then (cache_image (rgba_image (st_self st)) image_size st)
             (\<lambda>sta. Inr (set_format mlt_image_rgb24a sta))
      else Inr st)"

definition frame_replace_image :: "int \<Rightarrow> int \<Rightarrow> producer_state \<Rightarrow> producer_state" where
  "frame_replace_image width height st =
     st\<lparr>st_frame := (st_frame st)\<lparr>frame_image := current_image (st_self st),
                                  frame_format := format (st_self st),
                                  frame_width := width, frame_height := height\<rparr>\<rparr>"

definition convert_frame :: "producer_env \<Rightarrow> mlt_image_format \<Rightarrow> int \<Rightarrow> int \<Rightarrow> producer_state \<Rightarrow> failure + (int \<times> int) \<times> producer_state" where
  "convert_frame penv fmt width height st =
     (let st2 = set_format fmt (frame_replace_image width height st);
          ((buffer, fmt', width', height'), st3) = frame_get_image penv fmt width height st2
      in and_then (if buffer \<noteq> None
                   then cache_image buffer (mlt_image_format_size penv fmt' width' height') st3
                   else Inr st3)
           (\<lambda>st4. Inr ((width', height'), st4)))"

definition convert_title :: "producer_env \<Rightarrow> mlt_image_format \<Rightarrow> int \<Rightarrow> int \<Rightarrow> producer_state \<Rightarrow> failure + producer_state" where
  "convert_title penv fmt width height st =
     (let image_size = width * height * 4
      in if fmt \<noteq> mlt_image_none \<and> fmt \<noteq> mlt_image_glsl \<and> fmt \<noteq> format (st_self st) then
           and_then (revert_to_rgba image_size st)
             (\<lambda>st1.
           and_then (convert_frame penv fmt width height st1)
             (\<lambda>((width', height'), st4).
           Inr (set_frame_size (cache_alpha (width' * height') st4))))
         else Inr (set_frame_size st))"

definition render_and_convert :: "producer_env \<Rightarrow> QmlRenderer \<Rightarrow> mlt_image_format \<Rightarrow> int \<Rightarrow> int \<Rightarrow> int \<Rightarrow> bool \<Rightarrow> producer_state \<Rightarrow> failure + producer_state" where
  "render_and_convert penv renderer fmt width height position animated st =
     and_then (render_title penv renderer width height position animated st)
       (\<lambda>st1. convert_title penv fmt width height st1)"

text \<open>Lines 607--614: the cached image is dropped and the reload flag cleared.\<close>

definition drop_current_image :: "producer_state \<Rightarrow> producer_state" where
  "drop_current_image st =
     st\<lparr>st_self := (st_self st)\<lparr>current_image := None,
                                parent := (parent (st_self st))\<lparr>cached_image := None\<rparr>\<rparr>\<rparr>"

definition set_force_reload :: "int \<Rightarrow> producer_state \<Rightarrow> producer_state" where
  "set_force_reload v st =
     st\<lparr>st_self := (st_self st)\<lparr>parent := (parent (st_self st))\<lparr>force_reload := v\<rparr>\<rparr>\<rparr>"

definition invalidate :: "bool \<Rightarrow> producer_state \<Rightarrow> producer_state" where
  "invalidate animated st =
     set_force_reload 0 (if \<not> animated then drop_current_image st else st)"

definition clear_current_alpha :: "producer_state \<Rightarrow> producer_state" where
  "clear_current_alpha st = st\<lparr>st_self := (st_self st)\<lparr>current_alpha := None\<rparr>\<rparr>"

text \<open>
  \<^verbatim>\<open>renderKdenliveTitle\<close>. When the application object cannot be created the
  function returns at once, before the frame gets its size.
\<close>

definition renderKdenliveTitle :: "producer_env \<Rightarrow> mlt_image_format \<Rightarrow> int \<Rightarrow> int \<Rightarrow> int \<Rightarrow> int \<Rightarrow> producer_state \<Rightarrow> failure + producer_state" where
  "renderKdenliveTitle penv fmt width height position force_refresh st =
     (let producer_props = parent (st_self st);
          anim_duration = (case duration producer_props of None \<Rightarrow> 0 | Some d \<Rightarrow> d);
          animated = (0 < anim_duration);
          fps = profile_fps penv;
          st1 = (if duration producer_props \<noteq> None \<or> force_refresh = 1
                    \<or> width \<noteq> current_width (st_self st) \<or> height \<noteq> current_height (st_self st)
                    \<or> animated
                 then invalidate animated st else st)
      in if current_image (st_self st1) = None \<or> animated then
           (let renderer = qrenderer (parent (st_self st1));
                st2 = clear_current_alpha st1;
                (renderer1, st3) =
                  (if force_refresh = 1 \<and> renderer \<noteq> None
                   then (None, set_qrenderer None st2)
                   else (renderer, st2))
            in case renderer1 of
                 None \<Rightarrow>
                   if \<not> createQApplicationIfNeeded penv then Inr st3
                   else
                     (let new_renderer = QmlRenderer (resource (parent (st_self st3)))
                                           (double_to_int fps) anim_duration
                      in render_and_convert penv new_renderer fmt width height position animated
                           (set_qrenderer (Some new_renderer) st3))
               | Some r \<Rightarrow> render_and_convert penv r fmt width height position animated st3)
         else convert_title penv fmt width height st1)"

text \<open>
  \<^verbatim>\<open>producer_get_image\<close>, lines 286--368 of the later version. \<open>clone_image\<close> is the
  part after the render attempt, lines 329--363; it yields the error code and the
  value of the output parameter \<^verbatim>\<open>*buffer\<close>. The result of the whole function
  collects the error code, the values left in the four output parameters, and the new
  state.
\<close>

definition clone_image :: "producer_env \<Rightarrow> nat option \<Rightarrow> producer_state \<Rightarrow> int \<times> nat option \<times> producer_state" where
  "clone_image penv buffer st =
     (let self = st_self st in
      case current_image self of
        Some cur \<Rightarrow>
          (let image_size = mlt_image_format_size penv (format self) (current_width self)
                              (current_height self);
               (image_copy, wd1) = mlt_pool_alloc image_size (st_world st);
               wd2 = memcpy image_copy cur
                       (mlt_image_format_size penv (format self) (current_width self)
                          (current_height self - 1)) wd1;
               st1 = st\<lparr>st_world := wd2, st_frame := (st_frame st)\<lparr>frame_image := Some image_copy\<rparr>\<rparr>
           in case current_alpha self of
                Some alpha \<Rightarrow>
                  (let (alpha_copy, wd3) =
                         mlt_pool_alloc (current_width self * current_height self) (st_world st1);
                       wd4 = memcpy alpha_copy alpha (current_width self * current_height self) wd3
                   in (0, Some image_copy,
                       st1\<lparr>st_world := wd4,
                           st_frame := (st_frame st1)\<lparr>frame_alpha := Some alpha_copy\<rparr>\<rparr>))
              | None \<Rightarrow> (0, Some image_copy, st1))
      | None \<Rightarrow> (1, buffer, st))"

record get_image_result =
  gi_error :: int
  gi_buffer :: "nat option"
  gi_format :: mlt_image_format
  gi_width :: int
  gi_height :: int
  gi_state :: producer_state

definition producer_get_image :: "producer_env \<Rightarrow> nat option \<Rightarrow> mlt_image_format \<Rightarrow> int \<Rightarrow> int \<Rightarrow> producer_state \<Rightarrow> failure + get_image_result" where
  "producer_get_image penv buffer fmt width height st =
     (let producer_props = parent (st_self st);
          frame = st_frame st;
          width1 = (if 0 < rescale_width frame then rescale_width frame else width);
          height1 = (if 0 < rescale_height frame then rescale_height frame else height)
      in and_then
           (if force_reload producer_props \<noteq> 0 then
              (let (wd1, props1) = (if 1 < force_reload producer_props
                                    then read_qml penv (st_world st) producer_props
                                    else (st_world st, producer_props));
                   st1 = st\<lparr>st_world := wd1, st_self := (st_self st)\<lparr>parent := props1\<rparr>\<rparr>
               in renderKdenliveTitle penv fmt width1 height1 (original_position frame) 1
                    (set_force_reload 0 st1))
            else renderKdenliveTitle penv fmt width1 height1 (original_position frame) 0 st)
           (\<lambda>st2. let (error, buffer1, st3) = clone_image penv buffer st2
                  in Inr \<lparr>gi_error = error, gi_buffer = buffer1, gi_format = format (st_self st2),
                          gi_width = frame_width (st_frame st2),
                          gi_height = frame_height (st_frame st2), gi_state = st3\<rparr>))"

text \<open>
  Well-formedness of the producer: each of its three buffer pointers is null or an
  allocated block. \<open>keeps\<close> relates two states of which the second has no fewer
  blocks, is well formed when the first is, has the same scene data and the same list
  of opened files, and has the reload flag as it was or cleared.
\<close>

definition allocated :: "world \<Rightarrow> nat option \<Rightarrow> bool" where
  "allocated wd p = (case p of None \<Rightarrow> True | Some a \<Rightarrow> a < next_block wd)"

definition producer_pointers :: "producer_ktitle_qml \<Rightarrow> nat option list" where
  "producer_pointers self =
     [current_image self, current_alpha self, rgba_image self]"

definition producer_wf :: "producer_state \<Rightarrow> bool" where
  "producer_wf st = list_all (allocated (st_world st)) (producer_pointers (st_self st))"

definition keeps :: "producer_state \<Rightarrow> producer_state \<Rightarrow> bool" where
  "keeps st st' \<longleftrightarrow>
     next_block (st_world st) \<le> next_block (st_world st')
     \<and> (producer_wf st \<longrightarrow> producer_wf st')
     \<and> (force_reload (parent (st_self st')) = force_reload (parent (st_self st))
        \<or> force_reload (parent (st_self st')) = 0)
     \<and> qmldata (parent (st_self st')) = qmldata (parent (st_self st))
     \<and> opened (st_world st') = opened (st_world st)"

section \<open>Environments used in the examples\<close>

text \<open>
  Three environments in which every \<^verbatim>\<open>makeCurrent\<close> succeeds. In the first the
  scene document loads and its root is a visual item; in the second the document does
  not compile; in the third it compiles to an object that is not a visual item.
\<close>

definition working_environment :: "bool \<Rightarrow> environment" where
  "working_environment dbg =
     \<lparr>qt_debug = dbg, makeCurrent = (\<lambda>n. True),
      load = (\<lambda>url. \<lparr>comp_status = Ready, comp_create = VisualItem,
                      comp_status_created = Ready\<rparr>)\<rparr>"

definition broken_document :: "bool \<Rightarrow> environment" where
  "broken_document dbg =
     \<lparr>qt_debug = dbg, makeCurrent = (\<lambda>n. True),
      load = (\<lambda>url. \<lparr>comp_status = Error, comp_create = NoObject,
                      comp_status_created = Error\<rparr>)\<rparr>"

definition plain_object_document :: "bool \<Rightarrow> environment" where
  "plain_object_document dbg =
     \<lparr>qt_debug = dbg, makeCurrent = (\<lambda>n. True),
      load = (\<lambda>url. \<lparr>comp_status = Ready, comp_create = PlainObject,
                      comp_status_created = Ready\<rparr>)\<rparr>"

text \<open>
  A producer as it is after \<^verbatim>\<open>producer_qml_init\<close> with the reload flag set to 2, in
  an environment where everything works: the resource file can be read, the profile has
  25 frames per second, and the duration lookup finds two seconds. In the second
  environment the duration lookup finds no animation and leaves the properties as they
  are.
\<close>

definition example_producer_env :: producer_env where
  "example_producer_env =
     \<lparr>read_file = (\<lambda>path. Some ''Item {}''),
      traverseQml = (\<lambda>props. props\<lparr>duration := Some 2\<rparr>),
      profile_fps = 25, createQApplicationIfNeeded = True,
      render_env = working_environment False,
      constBits = (\<lambda>img. replicate (nat (fst (img_size img) * snd (img_size img) * 4)) 255),
      convert_qimage_to_mlt_rgba = (\<lambda>bytes w h. bytes),
      mlt_image_format_size = (\<lambda>f w h. w * (h + 1) * 4),
      convert_image = (\<lambda>bytes f g w h. None)\<rparr>"

definition static_producer_env :: producer_env where
  "static_producer_env = example_producer_env\<lparr>traverseQml := (\<lambda>props. props)\<rparr>"

definition example_producer_state :: producer_state where
  "example_producer_state =
     \<lparr>st_world = \<lparr>blocks = (\<lambda>a. []), next_block = 0, pool_content = (\<lambda>a i. 170),
                  opened = []\<rparr>,
      st_self = \<lparr>parent = \<lparr>force_reload = 2, duration = None, resource = ''title.qml'',
                           qmldata = None, qrenderer = None, cached_image = None,
                           cached_buffer = None, cached_alpha = None\<rparr>,
                 rgba_image = None, current_image = None, current_alpha = None,
                 current_width = 0, current_height = 0, format = mlt_image_none\<rparr>,
      st_frame = \<lparr>frame_image = None, frame_alpha = None, frame_format = mlt_image_none,
                  frame_width = 0, frame_height = 0, rescale_width = 0, rescale_height = 0,
                  original_position = 1\<rparr>\<rparr>"

section \<open>Properties of the deterministic clock\<close>

lemma advance_funpow_fields:
  "m_step ((advance ^^ n) d) = m_step d \<and> m_elapsed ((advance ^^ n) d) = m_elapsed d + int n * m_step d"
  by (induction n) (simp_all add: advance_def algebra_simps)

text \<open>
  What the clock does for any step and any number of calls: a driver constructed with
  step \<open>s\<close> reports \<open>n * s\<close> after \<open>n\<close> calls of \<^verbatim>\<open>advance()\<close>, whatever time
  has passed; a call of \<^verbatim>\<open>advance()\<close> leaves the step as it is and adds it to the
  elapsed time; and with a step that is not negative the elapsed time never goes down
  from one number of calls to a larger one.
\<close>

lemma elapsed_after_advances:
  "elapsed ((advance ^^ n) (QmlAnimationDriver s)) = int n * s
   \<and> m_step (advance d) = m_step d
   \<and> m_elapsed (advance d) = m_elapsed d + m_step d
   \<and> (0 \<le> s \<longrightarrow> m \<le> n \<longrightarrow>
        elapsed ((advance ^^ m) (QmlAnimationDriver s))
          \<le> elapsed ((advance ^^ n) (QmlAnimationDriver s)))"
proof -
  have e: "elapsed ((advance ^^ k) (QmlAnimationDriver s)) = int k * s" for k
    using advance_funpow_fields [of k "QmlAnimationDriver s"]
    by (simp add: elapsed_def QmlAnimationDriver_def)
  have mono: "int m * s \<le> int n * s" if "0 \<le> s" "m \<le> n"
    using that by (simp add: mult_right_mono)
  show ?thesis
    using e mono by (simp add: advance_def)
qed

text \<open>
  Claim C2 at the clock of a session of one frame per second that lasts one second.
  \<^verbatim>\<open>initDriver\<close> is the only place that constructs the clock. There the corrected
  frame count is \<open>1 - 2\<close>, the corrected frame rate \<open>-1\<close>, and the step
  \<open>1000 / -1\<close>: the clock reports 0 before the first call of \<^verbatim>\<open>advance()\<close> and
  \<open>-1000\<close> after it. The claim says that the elapsed time never decreases. The
  earlier worker computes the step as 1000 divided by the frame rate, which is 1000
  for the same session.
\<close>

theorem initDriver_negative_step:
  "and_then (initDriver (QmlRenderer ''title.qml'' 1 1)) (\<lambda>s. Inr (m_animationDriver s))
     = Inr (Some (QmlAnimationDriver (- 1000)))
   \<and> elapsed ((advance ^^ 0) (QmlAnimationDriver (- 1000))) = 0
   \<and> elapsed ((advance ^^ 1) (QmlAnimationDriver (- 1000))) = - 1000
   \<and> and_then (CoreRenderer_init dbg (CoreRenderer_setFPS 1 CoreRenderer))
         (\<lambda>c. Inr (c_animationDriver c))
       = Inr (Some (QmlAnimationDriver 1000))"
  by (simp add: elapsed_def advance_def QmlAnimationDriver_def and_then_def initDriver_def
        QmlRenderer_def CoreRenderer_init_def CoreRenderer_setFPS_def CoreRenderer_def
        c_div_def c_quot_def c_int_def Let_def)

section \<open>Properties of the scene metadata\<close>

lemma c_quot_pos: "0 < a \<Longrightarrow> 0 < b \<Longrightarrow> c_quot a b = a div b"
  by (simp add: c_quot_def)

lemma getIntProp_from_find:
  "getIntProp_from i object propertyName =
     (case find (\<lambda>p. fst p = propertyName \<and> 0 < snd p) (drop i (properties object)) of
        None \<Rightarrow> 0
      | Some p \<Rightarrow> if propertyName = ''duration'' then snd p div 1000 else snd p)"
proof (induction i object propertyName rule: getIntProp_from.induct)
  case (1 i object propertyName)
  show ?case
  proof (cases "i < length (properties object)")
    case False
    then show ?thesis by (subst getIntProp_from.simps) simp
  next
    case True
    then have d: "drop i (properties object) = properties object ! i # drop (Suc i) (properties object)"
      by (simp add: Cons_nth_drop_Suc)
    show ?thesis
    proof (cases "fst (properties object ! i) = propertyName \<and> 0 < snd (properties object ! i)")
      case hit: True
      then show ?thesis
        using True d by (subst getIntProp_from.simps) (simp add: c_quot_pos)
    next
      case miss: False
      then have "getIntProp_from i object propertyName = getIntProp_from (Suc i) object propertyName"
        using True by (subst getIntProp_from.simps) (auto simp: Let_def)
      also have "\<dots> = (case find (\<lambda>p. fst p = propertyName \<and> 0 < snd p)
                              (drop (Suc i) (properties object)) of
                         None \<Rightarrow> 0
                       | Some p \<Rightarrow> if propertyName = ''duration'' then snd p div 1000 else snd p)"
        using "1.IH" [OF True refl] miss by simp
      finally show ?thesis using d miss by auto
    qed
  qed
qed

text \<open>
  Claim C8. \<^verbatim>\<open>getIntProp\<close> returns the value of the first property with the given
  name and a positive value, divided by 1000 when the name is \<^verbatim>\<open>duration\<close>, and
  zero when there is no such property. So a node that \<^verbatim>\<open>getMaxDuration\<close> treats as
  a leaf animation, and whose \<^verbatim>\<open>duration\<close> is below 1000, has duration zero.
\<close>

theorem getIntProp_first_positive:
  "getIntProp object propertyName =
     (case find (\<lambda>p. fst p = propertyName \<and> 0 < snd p) (properties object) of
        None \<Rightarrow> 0
      | Some p \<Rightarrow> if propertyName = ''duration'' then snd p div 1000 else snd p)
   \<and> (\<not> contains name ''Sequential'' \<longrightarrow> \<not> contains name ''Parallel'' \<longrightarrow> isLeafAnimation name \<longrightarrow>
        (\<forall>p \<in> set props. fst p = ''duration'' \<longrightarrow> snd p < 1000) \<longrightarrow>
        getMaxDuration (Some (QObject name props cs)) = Inr 0)"
proof -
  have first: "getIntProp obj pn =
     (case find (\<lambda>p. fst p = pn \<and> 0 < snd p) (properties obj) of
        None \<Rightarrow> 0
      | Some p \<Rightarrow> if pn = ''duration'' then snd p div 1000 else snd p)" for obj pn
    by (simp add: getIntProp_def getIntProp_from_find)
  have short: "getIntProp (QObject name props cs) ''duration'' = 0"
    if small: "\<forall>p \<in> set props. fst p = ''duration'' \<longrightarrow> snd p < 1000"
  proof (cases "find (\<lambda>p. fst p = ''duration'' \<and> 0 < snd p) props")
    case None
    then show ?thesis by (simp add: first)
  next
    case (Some p)
    then have "p \<in> set props" "fst p = ''duration''" "0 < snd p"
      by (auto simp: find_Some_iff)
    then have "snd p div 1000 = 0" using small by auto
    then show ?thesis using Some by (simp add: first)
  qed
  show ?thesis
    using first [of object propertyName] short by (simp add: getMaxDuration_def)
qed

theorem getIntProp_first_positive_witness:
  "\<not> contains ''QQuickNumberAnimation'' ''Sequential''
   \<and> \<not> contains ''QQuickNumberAnimation'' ''Parallel''
   \<and> isLeafAnimation ''QQuickNumberAnimation''
   \<and> snd (''duration'', 999::int) < 1000
   \<and> getMaxDuration (Some (QObject ''QQuickNumberAnimation''
                                [(''running'', 1), (''duration'', 999)] [])) = Inr 0"
  using getIntProp_first_positive [of "QObject ''x'' [] []" "''duration''" "''QQuickNumberAnimation''"
          "[(''running'', 1), (''duration'', 999)]" "[]"]
  by (simp add: isLeafAnimation_def)

text \<open>What the three loops of \<^verbatim>\<open>getMaxDuration\<close> compute when every child has a duration.\<close>

lemma seq_loop_sum:
  "map getMaxDuration_obj cs = map Inr ds \<Longrightarrow> seq_loop cs acc = Inr (acc + sum_list ds)"
  by (induction cs arbitrary: ds acc) (auto simp: algebra_simps)

lemma par_loop_list:
  "map getMaxDuration_obj cs = map Inr ds \<Longrightarrow> par_loop cs acc = Inr (acc @ ds)"
  by (induction cs arbitrary: ds acc) auto

lemma fold_max_Max: "fold max xs (x::int) = Max (set (x # xs))"
  by (simp only: Max.set_eq_fold)

lemma max_element_Max: "ds \<noteq> [] \<Longrightarrow> max_element ds = Inr (Max (set ds))"
  by (cases ds) (simp_all add: fold_max_Max del: Max_insert)

lemma other_loop_first:
  "map getMaxDuration_obj cs = map Inr ds \<Longrightarrow>
   other_loop cs = (case find (\<lambda>d. 0 < d) ds of None \<Rightarrow> Inl MissingReturn | Some d \<Rightarrow> Inr d)"
  by (induction cs arbitrary: ds) auto

lemma getMaxDuration_groups:
  assumes "map getMaxDuration_obj cs = map Inr ds"
  shows "contains name ''Sequential'' \<Longrightarrow>
           getMaxDuration (Some (QObject name props cs)) = Inr (sum_list ds)"
    and "\<not> contains name ''Sequential'' \<Longrightarrow> contains name ''Parallel'' \<Longrightarrow> ds \<noteq> [] \<Longrightarrow>
           getMaxDuration (Some (QObject name props cs)) = Inr (Max (set ds))"
    and "\<not> contains name ''Sequential'' \<Longrightarrow> \<not> contains name ''Parallel'' \<Longrightarrow> isLeafAnimation name \<Longrightarrow>
           getMaxDuration (Some (QObject name props cs))
             = Inr (getIntProp (QObject name props cs) ''duration'')"
    and "\<not> contains name ''Sequential'' \<Longrightarrow> \<not> contains name ''Parallel'' \<Longrightarrow> \<not> isLeafAnimation name \<Longrightarrow>
           find (\<lambda>d. 0 < d) ds = Some d \<Longrightarrow>
           getMaxDuration (Some (QObject name props cs)) = Inr d"
  using assms
  by (simp_all add: getMaxDuration_def seq_loop_sum par_loop_list max_element_Max other_loop_first)

text \<open>
  Claim C4 at the inputs where the code gives no value. A node that is neither a group
  nor a leaf animation and has no child with a positive duration, here a rectangle
  without children and an item that holds one, runs off the end of the function; a
  parallel group without children dereferences the end iterator of its empty list.
  The claim says that zero is returned.
\<close>

theorem getMaxDuration_without_duration:
  "getMaxDuration (Some (QObject ''QQuickRectangle'' [(''width'', 100)] [])) = Inl MissingReturn
   \<and> getMaxDuration (Some (QObject ''QQuickItem'' []
                             [QObject ''QQuickNumberAnimation'' [(''duration'', 500)] []]))
       = Inl MissingReturn
   \<and> getMaxDuration (Some (QObject ''QQuickParallelAnimation'' [] [])) = Inl EndIteratorDereference"
  by (simp add: getMaxDuration_def isLeafAnimation_def getIntProp_def c_quot_def
        getIntProp_from.simps)

section \<open>Properties of the render workers\<close>

lemma qRound_of_int: "qRound (of_int n) = n"
  unfolding qRound_def by (rule floor_unique) simp_all

lemma qsize_times_one: "qsize_times sz 1 = sz"
  by (simp add: qsize_times_def qRound_of_int)

text \<open>
  After \<^verbatim>\<open>QmlCoreRenderer::ensureFbo\<close> the framebuffer has the requested size
  times the ratio, and a framebuffer of another size has been replaced by a new one.
\<close>

lemma QmlCoreRenderer_ensureFbo_size:
  assumes "QmlCoreRenderer_ensureFbo dbg w = Inr w'"
  shows "map_option fbo_size (w_fbo w') = Some (qsize_times (w_size w) (w_dpr w))"
    and "w_fbo w = Some f \<Longrightarrow> fbo_size f \<noteq> qsize_times (w_size w) (w_dpr w) \<Longrightarrow>
           w_fbo w' = Some \<lparr>fbo_id = w_allocs w, fbo_size = qsize_times (w_size w) (w_dpr w)\<rparr>"
    and "w_fbo w = Some f \<Longrightarrow> fbo_size f = qsize_times (w_size w) (w_dpr w) \<Longrightarrow> w_fbo w' = Some f"
  using assms
  by (auto simp: QmlCoreRenderer_ensureFbo_def Let_def split: if_splits option.splits)

text \<open>
  Claim C6. When \<^verbatim>\<open>makeCurrent\<close> fails, the render step of either worker returns
  with the worker exactly as it was: no new image, no signal on the condition
  variable. Handling the \<^verbatim>\<open>RENDER\<close> event then leaves the image and the number of
  signals unchanged as well.
\<close>

theorem render_without_context:
  "\<not> current \<Longrightarrow>
     QmlCoreRenderer_render dbg current scene w = Inr w
     \<and> and_then (QmlCoreRenderer_event dbg current scene RENDER w) (\<lambda>w1. Inr (w_image w1, w_wakes w1))
         = Inr (w_image w, w_wakes w)
     \<and> CoreRenderer_render dbg current scene c = Inr c"
  by (simp add: QmlCoreRenderer_render_def QmlCoreRenderer_event_def CoreRenderer_render_def
        and_then_def)

theorem render_without_context_witness:
  "\<not> False
   \<and> QmlCoreRenderer_render True False 0 (setSize (640, 480) (setDPR 1 QmlCoreRenderer))
       = Inr (setSize (640, 480) (setDPR 1 QmlCoreRenderer))
   \<and> w_wakes (setSize (640, 480) (setDPR 1 QmlCoreRenderer)) = 0
   \<and> CoreRenderer_render True False 0 CoreRenderer = Inr CoreRenderer"
  using render_without_context [of False True 0 "setSize (640, 480) (setDPR 1 QmlCoreRenderer)" CoreRenderer]
  by (simp add: setSize_def setDPR_def QmlCoreRenderer_def)

text \<open>The calling thread that waits for such a render step is never woken.\<close>

lemma polishSyncRender_blocks:
  assumes "\<not> makeCurrent env (w_renders (m_corerenderer s))"
      and "w_queue (m_corerenderer s) = []"
  shows "polishSyncRender env s = Inl BlockedForever"
  using assms
  by (simp add: polishSyncRender_def requestRender_def QmlCoreRenderer_event_def
        QmlCoreRenderer_render_def Let_def)

text \<open>
  Claim C5 on the earlier worker. After a render step at 640 by 480 the size is set to
  320 by 240 and a second render step runs: the framebuffer is still the first one,
  and the image of the second step is 640 by 480. The claim says that the framebuffer
  is replaced and that the image has the new size.
\<close>

theorem CoreRenderer_keeps_stale_fbo:
  "and_then (CoreRenderer_init False
              (CoreRenderer_setFormat Format_RGBA8888 (CoreRenderer_setSize (640, 480)
                (CoreRenderer_setFPS 25 (CoreRenderer_setDPR 1 CoreRenderer)))))
     (\<lambda>c1. and_then (CoreRenderer_render False True 0 c1)
     (\<lambda>c2. and_then (CoreRenderer_render False True 40 (CoreRenderer_setSize (320, 240) c2))
     (\<lambda>c3. Inr (c_size c3, c_fbo c2, c_fbo c3, img_size (c_image c3)))))
   = Inr ((320, 240), Some \<lparr>fbo_id = 0, fbo_size = (640, 480)\<rparr>,
          Some \<lparr>fbo_id = 0, fbo_size = (640, 480)\<rparr>, (640, 480))"
  by (simp add: and_then_def CoreRenderer_init_def CoreRenderer_render_def
        CoreRenderer_ensureFbo_def CoreRenderer_setFormat_def CoreRenderer_setSize_def
        CoreRenderer_setFPS_def CoreRenderer_setDPR_def CoreRenderer_def c_div_def c_quot_def
        qsize_times_one Let_def)

section \<open>Properties of the scene host\<close>

text \<open>
  A static session whose duration is not zero keeps the size of its first render call:
  \<^verbatim>\<open>init\<close> passes the size to the worker only while the session is not running or
  the duration is positive.
\<close>

lemma static_session_keeps_first_size:
  "and_then (render (working_environment False) 640 480 Format_RGBA8888
              (QmlRenderer ''title.qml'' 25 (- 1)))
     (\<lambda>(img1, s1). and_then (render (working_environment False) 320 240 Format_RGBA8888 s1)
     (\<lambda>(img2, s2). Inr (img_size img1, img_size img2)))
   = Inr ((640, 480), (640, 480))"
  by code_simp

text \<open>
  Claim C3 at a static session, 25 frames per second and duration zero. The first
  render call enters \<^verbatim>\<open>initDriver\<close>, which divides the corrected frame count by
  the duration. The claim says that the computation is well defined there.
\<close>

theorem initDriver_static_session:
  "m_status (QmlRenderer ''title.qml'' 25 0) = NotRunning
   \<and> initDriver (QmlRenderer ''title.qml'' 25 0) = Inl DivisionByZero
   \<and> init env 640 480 Format_RGBA8888 (QmlRenderer ''title.qml'' 25 0) = Inl DivisionByZero
   \<and> render env 640 480 Format_RGBA8888 (QmlRenderer ''title.qml'' 25 0) = Inl DivisionByZero"
  by (simp add: render_def init_def initDriver_def QmlRenderer_def c_div_def Let_def)

text \<open>Where \<^verbatim>\<open>initDriver\<close> returns, the step of the new driver is the quotient of the
  claim.\<close>

lemma initDriver_step:
  assumes "initDriver s = Inr s'"
  shows "m_duration s \<noteq> 0"
    and "c_quot (c_int (m_framesCount s - 2)) (m_duration s) \<noteq> 0"
    and "m_animationDriver s' =
           Some (QmlAnimationDriver (c_quot 1000 (c_quot (c_int (m_framesCount s - 2)) (m_duration s))))"
  using assms
  by (auto simp: initDriver_def c_div_def Let_def split: if_splits)

text \<open>
  The frame count is a 32-bit product. For 65536 frames per second and 65536 seconds
  it is zero, and \<^verbatim>\<open>initDriver\<close> divides 1000 by a corrected frame rate of zero.
\<close>

lemma initDriver_frame_count_overflow:
  "m_framesCount (QmlRenderer url 65536 65536) = 0
   \<and> initDriver (QmlRenderer url 65536 65536) = Inl DivisionByZero"
  by (simp add: initDriver_def QmlRenderer_def c_div_def c_quot_def c_int_def Let_def)

text \<open>
  The frame loop where nothing fails: every \<^verbatim>\<open>makeCurrent\<close> succeeds and the scene
  loads. One call of \<^verbatim>\<open>renderAnimated\<close> runs one render step, advances the driver
  once and moves to the next frame.
\<close>

lemma ensureFbo_ready:
  assumes "qt_debug env \<longrightarrow> \<not> qsize_isEmpty (w_size w) \<and> w_dpr w \<noteq> 0"
  shows "\<exists>w1 f. QmlCoreRenderer_ensureFbo (qt_debug env) w = Inr w1
    \<and> w_fbo w1 = Some f \<and> fbo_size f = qsize_times (w_size w) (w_dpr w)
    \<and> same_setup w w1 \<and> w_renders w1 = w_renders w \<and> w_wakes w1 = w_wakes w
    \<and> w_queue w1 = w_queue w"
proof (cases "w_fbo w")
  case None
  then show ?thesis
    using assms by (simp add: QmlCoreRenderer_ensureFbo_def same_setup_def Let_def)
next
  case (Some f)
  then show ?thesis
    using assms
    by (cases "fbo_size f = qsize_times (w_size w) (w_dpr w)")
       (simp_all add: QmlCoreRenderer_ensureFbo_def same_setup_def Let_def)
qed

lemma handle_events_ready:
  assumes mc: "\<forall>n. makeCurrent env n"
      and q: "list_all (\<lambda>e. e = INIT \<or> e = RESIZE) q"
      and dbg: "qt_debug env \<longrightarrow> \<not> qsize_isEmpty (w_size w) \<and> w_dpr w \<noteq> 0"
  shows "\<exists>w'. handle_events env scene (q @ [RENDER]) w = Inr w'
    \<and> w_image w' = rendered_image w scene \<and> same_setup w w'
    \<and> w_renders w' = Suc (w_renders w) \<and> w_queue w' = []"
proof -
  have skip: "handle_events env scene (q @ [RENDER]) w = handle_events env scene [RENDER] w"
    using q by (induction q) (auto simp: QmlCoreRenderer_event_def QmlCoreRenderer_init_def)
  obtain w1 f where e: "QmlCoreRenderer_ensureFbo (qt_debug env) w = Inr w1"
    and f: "w_fbo w1 = Some f" "fbo_size f = qsize_times (w_size w) (w_dpr w)"
    and s: "same_setup w w1" "w_renders w1 = w_renders w" "w_wakes w1 = w_wakes w"
    using ensureFbo_ready [OF dbg] by blast
  show ?thesis
    using mc e f s
    by (simp add: skip QmlCoreRenderer_event_def QmlCoreRenderer_render_def
          rendered_image_def same_setup_def)
qed

lemma polishSyncRender_ready:
  assumes mc: "\<forall>n. makeCurrent env n" and rd: "worker_ready env (m_corerenderer s)"
  shows "\<exists>w'. polishSyncRender env s = Inr (s\<lparr>m_corerenderer := w'\<rparr>)
    \<and> w_image w' = rendered_image (m_corerenderer s) (scene_time s)
    \<and> same_setup (m_corerenderer s) w'
    \<and> w_renders w' = Suc (w_renders (m_corerenderer s)) \<and> w_queue w' = []"
proof -
  have "qt_debug env \<longrightarrow> \<not> qsize_isEmpty (w_size (requestRender (m_corerenderer s)))
          \<and> w_dpr (requestRender (m_corerenderer s)) \<noteq> 0"
    using rd by (simp add: worker_ready_def requestRender_def)
  from handle_events_ready [OF mc _ this, of "w_queue (m_corerenderer s)" "scene_time s"] rd
  show ?thesis
    by (auto simp: polishSyncRender_def worker_ready_def requestRender_def Let_def
          rendered_image_def same_setup_def)
qed


lemma renderAnimated_running:
  assumes mc: "\<forall>n. makeCurrent env n" and run: "running env s"
  shows "\<exists>s'. renderAnimated env s = Inr s' \<and> running env s'
     \<and> same_setup (m_corerenderer s) (m_corerenderer s')
     \<and> w_renders (m_corerenderer s') = Suc (w_renders (m_corerenderer s))
     \<and> advances s' = Suc (advances s)
     \<and> scene_time s' = scene_time s + driver_step s
     \<and> driver_step s' = driver_step s
     \<and> m_currentFrame s' = m_currentFrame s + 1
     \<and> m_framesCount s' = m_framesCount s
     \<and> m_requestedFrame s' = m_requestedFrame s
     \<and> m_rootItem s' = m_rootItem s \<and> m_qmlComponent s' = m_qmlComponent s
     \<and> posted s' = posted s
          @ (if m_currentFrame s = m_requestedFrame s then [QuitCall] else [])
          @ (if m_currentFrame s + 1 < m_framesCount s then [UpdateRequest] else [QuitCall])
     \<and> m_img s' = (if m_currentFrame s = m_requestedFrame s
                       \<or> \<not> m_currentFrame s + 1 < m_framesCount s
                    then rendered_image (m_corerenderer s) (scene_time s) else m_img s)"
proof -
  from run obtain d where d: "m_animationDriver s = Some d"
    by (auto simp: running_def)
  from run have rd: "worker_ready env (m_corerenderer s)"
    by (simp add: running_def)
  obtain w' where p: "polishSyncRender env s = Inr (s\<lparr>m_corerenderer := w'\<rparr>)"
    and w': "w_image w' = rendered_image (m_corerenderer s) (scene_time s)"
      "same_setup (m_corerenderer s) w'"
      "w_renders w' = Suc (w_renders (m_corerenderer s))" "w_queue w' = []"
    using polishSyncRender_ready [OF mc rd] by blast
  have rd': "worker_ready env w'"
    using rd w' by (simp add: worker_ready_def same_setup_def)
  show ?thesis
    using run d w' rd'
    by (simp add: renderAnimated_def p Let_def running_def getRenderedQImage_def
          scene_time_def driver_step_def elapsed_def advance_def)
qed

lemma loop_exec_UpdateRequest:
  assumes "posted s = [UpdateRequest]" and "filter_installed s"
      and "renderAnimated env (s\<lparr>posted := []\<rparr>) = Inr s1"
  shows "loop_exec env s = loop_exec env s1"
  using assms by (subst loop_exec.simps) (simp add: eventFilter_def)

lemma loop_exec_QuitCall:
  assumes "posted s = [QuitCall] \<or> posted s = [QuitCall, QuitCall]"
  shows "loop_exec env s = Inr (s\<lparr>posted := []\<rparr>)"
  using assms by (subst loop_exec.simps) auto

lemma loop_exec_QuitCall_UpdateRequest:
  assumes "posted s = [QuitCall, UpdateRequest]" and "filter_installed s"
      and "renderAnimated env (s\<lparr>posted := []\<rparr>) = Inr s1"
  shows "loop_exec env s = Inr s1"
  using assms by (subst loop_exec.simps) (simp add: eventFilter_def)

lemma scene_time_posted [simp]: "scene_time (s\<lparr>posted := q\<rparr>) = scene_time s"
  by (simp add: scene_time_def split: option.split)

lemma driver_step_posted [simp]: "driver_step (s\<lparr>posted := q\<rparr>) = driver_step s"
  by (simp add: driver_step_def)

lemma frame_image_at_next:
  assumes "same_setup (m_corerenderer s) (m_corerenderer s1)"
      and "w_renders (m_corerenderer s1) = Suc (w_renders (m_corerenderer s))"
      and "scene_time s1 = scene_time s + driver_step s"
      and "driver_step s1 = driver_step s"
  shows "frame_image_at s1 n = frame_image_at s (Suc n)"
  using assms by (simp add: frame_image_at_def same_setup_def algebra_simps)

lemma loop_exec_last:
  assumes mc: "\<forall>n. makeCurrent env n"
      and run: "running env s" and p: "posted s = [UpdateRequest]"
      and stop: "m_requestedFrame s = m_currentFrame s
                  \<or> \<not> m_currentFrame s + 1 < m_framesCount s"
  shows "\<exists>s'. loop_exec env s = Inr s'
            \<and> advances s' = Suc (advances s)
                 + (if m_currentFrame s + 1 < m_framesCount s then 1 else 0)
            \<and> m_img s' = frame_image_at s
                 (if m_currentFrame s + 1 < m_framesCount s
                     \<and> \<not> m_currentFrame s + 2 < m_framesCount s then 1 else 0)
            \<and> m_animationDriver s' \<noteq> None
            \<and> m_rootItem s' = m_rootItem s \<and> m_qmlComponent s' = m_qmlComponent s"
proof -
  let ?s0 = "s\<lparr>posted := []\<rparr>"
  have run0: "running env ?s0" using run by (simp add: running_def)
  obtain s1 where ra: "renderAnimated env ?s0 = Inr s1"
    and run1: "running env s1"
    and geo: "same_setup (m_corerenderer ?s0) (m_corerenderer s1)"
    and ren: "w_renders (m_corerenderer s1) = Suc (w_renders (m_corerenderer ?s0))"
    and adv: "advances s1 = Suc (advances ?s0)"
    and tim: "scene_time s1 = scene_time ?s0 + driver_step ?s0"
    and stp: "driver_step s1 = driver_step ?s0"
    and cur: "m_currentFrame s1 = m_currentFrame ?s0 + 1"
    and fc: "m_framesCount s1 = m_framesCount ?s0"
    and req: "m_requestedFrame s1 = m_requestedFrame ?s0"
    and keep: "m_rootItem s1 = m_rootItem ?s0" "m_qmlComponent s1 = m_qmlComponent ?s0"
    and post: "posted s1 = posted ?s0
          @ (if m_currentFrame ?s0 = m_requestedFrame ?s0 then [QuitCall] else [])
          @ (if m_currentFrame ?s0 + 1 < m_framesCount ?s0 then [UpdateRequest] else [QuitCall])"
    and img: "m_img s1 = (if m_currentFrame ?s0 = m_requestedFrame ?s0
                       \<or> \<not> m_currentFrame ?s0 + 1 < m_framesCount ?s0
                    then rendered_image (m_corerenderer ?s0) (scene_time ?s0) else m_img ?s0)"
    using renderAnimated_running [OF mc run0] by blast
  have stop0: "m_currentFrame ?s0 = m_requestedFrame ?s0
                \<or> \<not> m_currentFrame ?s0 + 1 < m_framesCount ?s0"
    using stop by auto
  have "m_img s1 = rendered_image (m_corerenderer ?s0) (scene_time ?s0)"
    using img stop0 by (simp only: if_True)
  then have img1: "m_img s1 = frame_image_at s 0"
    by (simp add: frame_image_at_def rendered_image_def)
  have step: "loop_exec env s = loop_exec env s1"
    using run p ra by (intro loop_exec_UpdateRequest) (simp_all add: running_def)
  have d1: "m_animationDriver s1 \<noteq> None" and f1: "filter_installed s1"
    using run1 by (simp_all add: running_def)
  show ?thesis
  proof (cases "m_currentFrame s + 1 < m_framesCount s")
    case False
    then have "posted s1 = [QuitCall] \<or> posted s1 = [QuitCall, QuitCall]"
      using post by simp
    then have "loop_exec env s1 = Inr (s1\<lparr>posted := []\<rparr>)"
      by (rule loop_exec_QuitCall)
    then show ?thesis
      using False step adv img1 d1 keep by simp
  next
    case True
    then have eq: "m_requestedFrame s = m_currentFrame s" using stop by simp
    then have p1: "posted s1 = [QuitCall, UpdateRequest]"
      using post True by simp
    let ?s1 = "s1\<lparr>posted := []\<rparr>"
    have run1': "running env ?s1" using run1 by (simp add: running_def)
    obtain s2 where ra2: "renderAnimated env ?s1 = Inr s2"
      and run2: "running env s2"
      and adv2: "advances s2 = Suc (advances ?s1)"
      and keep2: "m_rootItem s2 = m_rootItem ?s1" "m_qmlComponent s2 = m_qmlComponent ?s1"
      and img2: "m_img s2 = (if m_currentFrame ?s1 = m_requestedFrame ?s1
                       \<or> \<not> m_currentFrame ?s1 + 1 < m_framesCount ?s1
                    then rendered_image (m_corerenderer ?s1) (scene_time ?s1) else m_img ?s1)"
      using renderAnimated_running [OF mc run1'] by blast
    have le: "loop_exec env s1 = Inr s2"
      using p1 f1 ra2 by (rule loop_exec_QuitCall_UpdateRequest)
    have ne: "m_currentFrame ?s1 \<noteq> m_requestedFrame ?s1"
      using cur req eq by simp
    have next_image: "rendered_image (m_corerenderer ?s1) (scene_time ?s1) = frame_image_at s 1"
      using frame_image_at_next [of ?s0 s1 0] geo ren tim stp
      by (simp add: frame_image_at_def rendered_image_def)
    have "m_img s2 = frame_image_at s
            (if \<not> m_currentFrame s + 2 < m_framesCount s then 1 else 0)"
    proof (cases "m_currentFrame s + 2 < m_framesCount s")
      case lt: True
      then have "m_currentFrame ?s1 + 1 < m_framesCount ?s1" using cur fc by simp
      then have "m_img s2 = m_img ?s1" using img2 ne by simp
      then show ?thesis using lt img1 by simp
    next
      case ge: False
      then have "\<not> m_currentFrame ?s1 + 1 < m_framesCount ?s1" using cur fc by simp
      then have "m_img s2 = rendered_image (m_corerenderer ?s1) (scene_time ?s1)"
        using img2 by simp
      then show ?thesis using ge next_image by simp
    qed
    moreover have "m_animationDriver s2 \<noteq> None" using run2 by (simp add: running_def)
    ultimately show ?thesis
      using True step le adv adv2 keep keep2 by simp
  qed
qed

lemma loop_exec_frames:
  assumes mc: "\<forall>n. makeCurrent env n"
  shows "running env s \<Longrightarrow> posted s = [UpdateRequest] \<Longrightarrow>
         m_currentFrame s \<le> t \<Longrightarrow> (m_currentFrame s < t \<longrightarrow> t < m_framesCount s) \<Longrightarrow>
         m_requestedFrame s = t
           \<or> (\<not> t + 1 < m_framesCount s
               \<and> \<not> (m_currentFrame s \<le> m_requestedFrame s \<and> m_requestedFrame s \<le> t)) \<Longrightarrow>
         n = nat (t - m_currentFrame s) \<Longrightarrow>
         \<exists>s'. loop_exec env s = Inr s'
            \<and> advances s' = Suc (advances s + n) + (if t + 1 < m_framesCount s then 1 else 0)
            \<and> m_img s' = frame_image_at s
                 (if t + 1 < m_framesCount s \<and> \<not> t + 2 < m_framesCount s then Suc n else n)
            \<and> m_animationDriver s' \<noteq> None
            \<and> m_rootItem s' = m_rootItem s \<and> m_qmlComponent s' = m_qmlComponent s"
proof (induction n arbitrary: s)
  case 0
  then have ct: "m_currentFrame s = t" by simp
  have stop: "m_requestedFrame s = m_currentFrame s
                \<or> \<not> m_currentFrame s + 1 < m_framesCount s"
    using "0.prems"(5) ct by auto
  obtain s' where "loop_exec env s = Inr s'"
    and "advances s' = Suc (advances s) + (if t + 1 < m_framesCount s then 1 else 0)"
    and "m_img s' = frame_image_at s
           (if t + 1 < m_framesCount s \<and> \<not> t + 2 < m_framesCount s then 1 else 0)"
    and "m_animationDriver s' \<noteq> None"
    and "m_rootItem s' = m_rootItem s" "m_qmlComponent s' = m_qmlComponent s"
    using loop_exec_last [OF mc "0.prems"(1,2) stop] ct by auto
  then show ?case by (intro exI [of _ s']) simp
next
  case (Suc n)
  let ?s0 = "s\<lparr>posted := []\<rparr>"
  have run0: "running env ?s0" using Suc.prems(1) by (simp add: running_def)
  from Suc.prems have lt: "m_currentFrame s < t" by simp
  obtain s1 where ra: "renderAnimated env ?s0 = Inr s1"
    and run1: "running env s1"
    and geo: "same_setup (m_corerenderer ?s0) (m_corerenderer s1)"
    and ren: "w_renders (m_corerenderer s1) = Suc (w_renders (m_corerenderer ?s0))"
    and adv: "advances s1 = Suc (advances ?s0)"
    and tim: "scene_time s1 = scene_time ?s0 + driver_step ?s0"
    and stp: "driver_step s1 = driver_step ?s0"
    and cur: "m_currentFrame s1 = m_currentFrame ?s0 + 1"
    and fc: "m_framesCount s1 = m_framesCount ?s0"
    and req: "m_requestedFrame s1 = m_requestedFrame ?s0"
    and keep: "m_rootItem s1 = m_rootItem ?s0" "m_qmlComponent s1 = m_qmlComponent ?s0"
    and post: "posted s1 = posted ?s0
          @ (if m_currentFrame ?s0 = m_requestedFrame ?s0 then [QuitCall] else [])
          @ (if m_currentFrame ?s0 + 1 < m_framesCount ?s0 then [UpdateRequest] else [QuitCall])"
    using renderAnimated_running [OF mc run0] by blast
  have post1: "posted s1 = [UpdateRequest]"
    using post lt Suc.prems(4,5) by auto
  have step: "loop_exec env s = loop_exec env s1"
    using Suc.prems(1,2) ra by (intro loop_exec_UpdateRequest) (simp_all add: running_def)
  have "\<exists>s'. loop_exec env s1 = Inr s'
            \<and> advances s' = Suc (advances s1 + n) + (if t + 1 < m_framesCount s1 then 1 else 0)
            \<and> m_img s' = frame_image_at s1
                 (if t + 1 < m_framesCount s1 \<and> \<not> t + 2 < m_framesCount s1 then Suc n else n)
            \<and> m_animationDriver s' \<noteq> None
            \<and> m_rootItem s' = m_rootItem s1 \<and> m_qmlComponent s' = m_qmlComponent s1"
    using run1 post1 lt Suc.prems(4,5,6) cur fc req
    by (intro Suc.IH) auto
  moreover have "frame_image_at s1 k = frame_image_at s (Suc k)" for k
    using frame_image_at_next [of ?s0 s1 k] geo ren tim stp
    by (simp add: frame_image_at_def)
  ultimately show ?case
    using step adv keep fc by auto
qed

lemma init_animated:
  assumes doc: "loads env (m_qmlFileUrl s)"
      and size: "qt_debug env \<longrightarrow> \<not> qsize_isEmpty (width, height)"
      and anim: "0 < m_duration s"
      and drv: "c_quot (c_int (m_framesCount s - 2)) (m_duration s) \<noteq> 0"
  shows "\<exists>s1. init env width height fmt s = Inr s1
     \<and> m_animationDriver s1
         = Some (QmlAnimationDriver (c_quot 1000 (c_quot (c_int (m_framesCount s - 2)) (m_duration s))))
     \<and> driver_installed s1
     \<and> m_corerenderer s1
         = requestInit (setFormat fmt (setSize (width, height) (m_corerenderer s)))
     \<and> (\<exists>item. m_rootItem s1 = Valid item) \<and> (\<exists>c. m_qmlComponent s1 = Valid c)
     \<and> m_currentFrame s1 = m_currentFrame s \<and> m_requestedFrame s1 = m_requestedFrame s
     \<and> m_framesCount s1 = m_framesCount s \<and> posted s1 = posted s
     \<and> advances s1 = advances s \<and> filter_installed s1 = filter_installed s"
  using assms
  by (simp add: init_def initDriver_def loadInput_def loadRootObject_def checkQmlComponent_def
        loads_def c_div_def Let_def)


text \<open>
  An animated render on an idle session whose driver can be installed returns. It
  makes \<open>render_steps\<close> calls of \<^verbatim>\<open>renderAnimated\<close>, each with one render step
  and one advance of the driver. The image it returns was drawn by the render step
  that follows \<open>shown_step\<close> earlier ones, shows the scene at that many driver steps,
  and has the requested size times the ratio.
\<close>

lemma render_frame_frames:
  assumes mc: "\<forall>n. makeCurrent env n"
      and doc: "loads env (m_qmlFileUrl s)"
      and size: "qt_debug env \<longrightarrow> \<not> qsize_isEmpty (width, height) \<and> w_dpr (m_corerenderer s) \<noteq> 0"
      and idle: "posted s = []" "list_all (\<lambda>e. e = INIT \<or> e = RESIZE) (w_queue (m_corerenderer s))"
      and anim: "0 < m_duration s"
      and drv: "c_quot (c_int (m_framesCount s - 2)) (m_duration s) \<noteq> 0"
  shows "\<exists>s'. render_frame env width height fmt frame s
           = Inr (\<lparr>img_size = qsize_times (width, height) (w_dpr (m_corerenderer s)),
                   img_format = fmt,
                   img_scene = int (shown_step (m_framesCount s) frame)
                     * c_quot 1000 (c_quot (c_int (m_framesCount s - 2)) (m_duration s)),
                   img_step = Suc (w_renders (m_corerenderer s) + shown_step (m_framesCount s) frame)\<rparr>,
                  s')
         \<and> advances s' = advances s + render_steps (m_framesCount s) frame"
proof -
  let ?s0 = "s\<lparr>m_requestedFrame := frame, m_currentFrame := 0\<rparr>"
  let ?step = "c_quot 1000 (c_quot (c_int (m_framesCount s - 2)) (m_duration s))"
  let ?fc = "m_framesCount s"
  define t where "t = (if 0 \<le> frame \<and> frame + 1 < ?fc then frame else max (?fc - 1) 0)"
  define k where "k = (if t + 1 < ?fc \<and> \<not> t + 2 < ?fc then Suc (nat t) else nat t)"
  obtain s1 where i: "init env width height fmt ?s0 = Inr s1"
    and drv1: "m_animationDriver s1 = Some (QmlAnimationDriver ?step)" "driver_installed s1"
    and w1: "m_corerenderer s1
         = requestInit (setFormat fmt (setSize (width, height) (m_corerenderer s)))"
    and ptr1: "\<exists>item. m_rootItem s1 = Valid item" "\<exists>c. m_qmlComponent s1 = Valid c"
    and fr1: "m_currentFrame s1 = 0" "m_requestedFrame s1 = frame"
      "m_framesCount s1 = m_framesCount s" "posted s1 = []" "advances s1 = advances s"
    using init_animated [of env ?s0 width height fmt] doc size anim drv idle(1) by auto
  let ?a = "s1\<lparr>filter_installed := True\<rparr>"
  let ?b = "?a\<lparr>posted := [UpdateRequest]\<rparr>"
  have runb: "running env ?b"
    using drv1 w1 size idle(2)
    by (simp add: running_def worker_ready_def requestInit_def setFormat_def setSize_def)
  have eq: "?b\<lparr>posted := []\<rparr> = ?a"
    using fr1(4) by (cases s1) simp
  have "running env ?a"
    using runb by (simp add: running_def)
  then obtain s2 where ra: "renderAnimated env ?a = Inr s2"
    using renderAnimated_running [OF mc] by blast
  have le: "loop_exec env ?b = loop_exec env s2"
    by (rule loop_exec_UpdateRequest) (simp_all add: eq ra)
  have t0: "0 \<le> t" by (simp add: t_def)
  have h4: "0 < t \<longrightarrow> t < ?fc"
    by (auto simp: t_def)
  have h5: "frame = t \<or> (\<not> t + 1 < ?fc \<and> \<not> (0 \<le> frame \<and> frame \<le> t))"
    by (auto simp: t_def)
  obtain s3 where l: "loop_exec env ?b = Inr s3"
    and adv: "advances s3 = Suc (advances ?b + nat t) + (if t + 1 < ?fc then 1 else 0)"
    and img: "m_img s3 = frame_image_at ?b k"
    and d3: "m_animationDriver s3 \<noteq> None"
    and ptr3: "m_rootItem s3 = m_rootItem ?b" "m_qmlComponent s3 = m_qmlComponent ?b"
    using loop_exec_frames [OF mc runb, of t "nat t"] fr1 t0 h4 h5
    unfolding k_def by auto
  have steps: "Suc (nat t) + (if t + 1 < ?fc then 1 else 0) = render_steps ?fc frame"
    by (auto simp: t_def render_steps_def)
  have shown: "k = shown_step ?fc frame"
    by (auto simp: k_def t_def shown_step_def)
  have img': "m_img s3 = \<lparr>img_size = qsize_times (width, height) (w_dpr (m_corerenderer s)),
                   img_format = fmt, img_scene = int (shown_step ?fc frame) * ?step,
                   img_step = Suc (w_renders (m_corerenderer s) + shown_step ?fc frame)\<rparr>"
    using img drv1 w1 unfolding shown
    by (simp add: frame_image_at_def scene_time_def driver_step_def elapsed_def
          QmlAnimationDriver_def requestInit_def setFormat_def setSize_def)
  have adv': "advances s3 = advances s + render_steps ?fc frame"
    using adv steps fr1(5) by simp
  from d3 obtain d where d: "m_animationDriver s3 = Some d" by auto
  from ptr1 ptr3 obtain item c where p: "m_rootItem s3 = Valid item" "m_qmlComponent s3 = Valid c"
    by auto
  have l2: "loop_exec env s2 = Inr s3"
    using l le by simp
  show ?thesis
    using adv' img' d p
    by (simp add: render_frame_def i ra l2 resetDriver_def delete_pointer_def)
qed

text \<open>
  A session of 25 frames per second that lasts two seconds has 50 frames. The request
  for frame 3 makes five render steps and returns the image of the fourth; the request
  for frame 48 makes fifty and returns the image of the fiftieth, which is the one of
  frame 49.
\<close>

lemma render_frame_example:
  "and_then (render_frame (working_environment False) 640 480 Format_RGBA8888 3
              (QmlRenderer ''title.qml'' 25 2))
     (\<lambda>(img, s). Inr (img_step img, img_scene img, advances s, posted s))
     = Inr (4, 3 * 41, 5, [UpdateRequest])
   \<and> and_then (render_frame (working_environment False) 640 480 Format_RGBA8888 48
              (QmlRenderer ''title.qml'' 25 2))
     (\<lambda>(img, s). Inr (img_step img, advances s, posted s))
     = Inr (50, 50, [])"
  by code_simp

text \<open>
  Claim C1 at a session of one frame per second that lasts two seconds. The frame
  count is two, and the request for frame 0 stops in \<^verbatim>\<open>initDriver\<close>: the corrected
  frame rate is \<open>(2 - 2) / 2 = 0\<close>, and 1000 is divided by it. The claim says that the
  call returns the image of the first render step.
\<close>

theorem render_frame_one_fps:
  "m_framesCount (QmlRenderer ''title.qml'' 1 2) = 1 * 2
   \<and> render_frame (working_environment dbg) 640 480 Format_RGBA8888 0
        (QmlRenderer ''title.qml'' 1 2) = Inl DivisionByZero"
  by (simp add: render_frame_def init_def initDriver_def QmlRenderer_def c_div_def c_quot_def c_int_def
        Let_def)

text \<open>
  Claim C7 at an animated session of 25 frames per second and two seconds. With a
  document that does not compile, and with one whose root object is not a visual
  item, the first render call does not return: a debug build stops at the assertion
  on the flag of \<^verbatim>\<open>loadRootObject\<close>, a release build calls \<^verbatim>\<open>setWidth\<close> through
  the null root item. The claim says that a load error is returned.
\<close>

theorem render_frame_load_failure:
  "render_frame (broken_document dbg) 640 480 Format_RGBA8888 0 (QmlRenderer ''title.qml'' 25 2)
     = Inl (if dbg then AssertionFailed else NullDereference)
   \<and> render_frame (plain_object_document dbg) 640 480 Format_RGBA8888 0
        (QmlRenderer ''title.qml'' 25 2)
     = Inl (if dbg then AssertionFailed else NullDereference)"
  by (simp add: render_frame_def init_def initDriver_def loadInput_def loadRootObject_def
        checkQmlComponent_def broken_document_def plain_object_document_def QmlRenderer_def
        c_div_def c_quot_def c_int_def Let_def)

section \<open>Properties of the producer\<close>

lemma and_then_InrE:
  assumes "and_then r f = Inr c"
  obtains b where "r = Inr b" and "f b = Inr c"
  using assms by (cases r) (auto simp: and_then_def)

lemma keeps_refl: "keeps st st"
  by (simp add: keeps_def)

lemma keeps_trans: "keeps a b \<Longrightarrow> keeps b c \<Longrightarrow> keeps a c"
  by (auto simp: keeps_def)

lemma allocated_simps [simp]:
  "allocated wd None" "allocated wd (Some a) = (a < next_block wd)"
  by (simp_all add: allocated_def)

lemma allocated_mono: "allocated wd p \<Longrightarrow> next_block wd \<le> next_block wd' \<Longrightarrow> allocated wd' p"
  by (cases p) simp_all

lemma next_block_write_bytes [simp]: "next_block (write_bytes d b n wd) = next_block wd"
  and opened_write_bytes [simp]: "opened (write_bytes d b n wd) = opened wd"
  and next_block_memcpy [simp]: "next_block (memcpy d a n wd) = next_block wd"
  and opened_memcpy [simp]: "opened (memcpy d a n wd) = opened wd"
  by (simp_all add: write_bytes_def memcpy_def)

lemma mlt_pool_alloc_simps [simp]:
  "fst (mlt_pool_alloc n wd) = next_block wd"
  "next_block (snd (mlt_pool_alloc n wd)) = Suc (next_block wd)"
  "opened (snd (mlt_pool_alloc n wd)) = opened wd"
  by (simp_all add: mlt_pool_alloc_def)

lemma keepsI:
  assumes "next_block (st_world st') = next_block (st_world st)"
      and "opened (st_world st') = opened (st_world st)"
      and "producer_pointers (st_self st') = producer_pointers (st_self st)"
      and "force_reload (parent (st_self st')) = force_reload (parent (st_self st))"
      and "qmldata (parent (st_self st')) = qmldata (parent (st_self st))"
  shows "keeps st st'"
  using assms by (auto simp: keeps_def producer_wf_def allocated_def list_all_iff split: option.splits)

lemma keeps_steps:
  "keeps st (alloc_rgba_image n st)"
  "keeps st (cache_buffer st)"
  "keeps st (cache_alpha n st)"
  "keeps st (snd (frame_get_image penv fmt w h st))"
  "keeps st (set_frame_size st)"
  "keeps st (set_qrenderer r st)"
  "keeps st (set_current_size w h st)"
  "keeps st (set_format f st)"
  "keeps st (frame_replace_image w h st)"
  "keeps st (drop_current_image st)"
  "keeps st (set_force_reload 0 st)"
  "keeps st (clear_current_alpha st)"
  by (auto simp: keeps_def alloc_rgba_image_def cache_buffer_def cache_alpha_def
        frame_get_image_def set_frame_size_def set_qrenderer_def set_current_size_def
        set_format_def frame_replace_image_def drop_current_image_def set_force_reload_def
        clear_current_alpha_def producer_wf_def producer_pointers_def split_def Let_def
      split: option.splits intro: allocated_mono)

lemma keeps_store_rendered: "store_rendered penv bits w h st = Inr st' \<Longrightarrow> keeps st st'"
  by (auto simp: keeps_def store_rendered_def producer_wf_def producer_pointers_def Let_def
      split: option.splits if_splits intro: allocated_mono)

lemma keeps_cache_image: "cache_image src n st = Inr st' \<Longrightarrow> keeps st st'"
  by (auto simp: keeps_def cache_image_def producer_wf_def producer_pointers_def Let_def split_def
      split: option.splits intro: allocated_mono)

lemma keeps_invalidate: "keeps st (invalidate animated st)"
  unfolding invalidate_def
  by (cases animated) (auto intro: keeps_steps keeps_trans [OF keeps_steps(10) keeps_steps(11)])

lemma keeps_revert_to_rgba: "revert_to_rgba n st = Inr st' \<Longrightarrow> keeps st st'"
  unfolding revert_to_rgba_def
  by (auto split: if_splits elim!: and_then_InrE
      intro: keeps_refl keeps_trans [OF keeps_cache_image keeps_steps(8)])

lemma keeps_convert_frame: "convert_frame penv fmt w h st = Inr (d, st') \<Longrightarrow> keeps st st'"
proof -
  assume a: "convert_frame penv fmt w h st = Inr (d, st')"
  define st2 where "st2 = set_format fmt (frame_replace_image w h st)"
  define g where "g = frame_get_image penv fmt w h st2"
  have k2: "keeps st st2"
    unfolding st2_def by (rule keeps_trans [OF keeps_steps(9) keeps_steps(8)])
  have k3: "keeps st2 (snd g)" unfolding g_def by (rule keeps_steps)
  have "keeps (snd g) st'"
    using a unfolding convert_frame_def Let_def split_def st2_def [symmetric] g_def [symmetric]
    by (auto split: if_splits elim!: and_then_InrE intro: keeps_refl keeps_cache_image)
  with k2 k3 show ?thesis by (blast intro: keeps_trans)
qed

lemma keeps_convert_title: "convert_title penv fmt w h st = Inr st' \<Longrightarrow> keeps st st'"
  unfolding convert_title_def Let_def
  by (auto split: if_splits prod.splits elim!: and_then_InrE
      intro: keeps_steps
        keeps_trans [OF keeps_revert_to_rgba
          keeps_trans [OF keeps_convert_frame keeps_trans [OF keeps_steps(3) keeps_steps(5)]]])

lemma keeps_render_title:
  "render_title penv renderer w h position animated st = Inr st' \<Longrightarrow> keeps st st'"
proof -
  assume a: "render_title penv renderer w h position animated st = Inr st'"
  then obtain bits r1 st3 st4 where
      s3: "store_rendered penv bits w h
             (set_qrenderer (Some r1) (alloc_rgba_image (w * h * 4) st)) = Inr st3"
    and s4: "cache_image (rgba_image (st_self st3)) (w * h * 4) st3 = Inr st4"
    and s5: "st' = cache_alpha (w * h) (set_current_size w h (cache_buffer st4))"
    unfolding render_title_def Let_def
    by (auto elim!: and_then_InrE split: prod.splits)
  have "keeps st (set_qrenderer (Some r1) (alloc_rgba_image (w * h * 4) st))"
    by (rule keeps_trans [OF keeps_steps(1) keeps_steps(6)])
  moreover have "keeps st4 st'"
    unfolding s5 by (rule keeps_trans [OF keeps_steps(2) keeps_trans [OF keeps_steps(7) keeps_steps(3)]])
  ultimately show ?thesis
    using keeps_store_rendered [OF s3] keeps_cache_image [OF s4] by (blast intro: keeps_trans)
qed

lemma keeps_render_and_convert:
  "render_and_convert penv renderer fmt w h position animated st = Inr st' \<Longrightarrow> keeps st st'"
  unfolding render_and_convert_def
  by (auto elim!: and_then_InrE intro: keeps_trans [OF keeps_render_title keeps_convert_title])

lemma keeps_renderKdenliveTitle:
  assumes "renderKdenliveTitle penv fmt w h position force_refresh st = Inr st'"
  shows "keeps st st'"
proof -
  define animated where "animated = (0 < (case duration (parent (st_self st)) of None \<Rightarrow> 0 | Some d \<Rightarrow> d))"
  define st1 where "st1 = (if duration (parent (st_self st)) \<noteq> None \<or> force_refresh = 1
                    \<or> w \<noteq> current_width (st_self st) \<or> h \<noteq> current_height (st_self st)
                    \<or> animated
                 then invalidate animated st else st)"
  have k1: "keeps st st1" unfolding st1_def by (simp add: keeps_invalidate keeps_refl)
  have "keeps st1 st'"
    using assms
    unfolding renderKdenliveTitle_def Let_def animated_def [symmetric] st1_def [symmetric]
    by (auto split: if_splits option.splits prod.splits
        intro: keeps_steps keeps_convert_title
          keeps_trans [OF keeps_steps(12) keeps_steps(6)]
          keeps_trans [OF keeps_steps(12) keeps_render_and_convert]
          keeps_trans [OF keeps_steps(12) keeps_trans [OF keeps_steps(6) keeps_render_and_convert]]
          keeps_trans [OF keeps_steps(12) keeps_trans [OF keeps_steps(6) keeps_trans [OF keeps_steps(6) keeps_render_and_convert]]])
  with k1 show ?thesis by (rule keeps_trans)
qed



text \<open>
  \<^verbatim>\<open>read_qml\<close> opens the resource file once, and what it leaves in the properties
  is decided by what the file system returns for that path.
\<close>

lemma read_qml_opened:
  "opened (fst (read_qml penv wd props)) = opened wd @ [resource props]"
  "next_block (fst (read_qml penv wd props)) = next_block wd"
  by (simp_all add: read_qml_def Let_def split: option.splits)

lemma read_qml_properties:
  "read_file penv (resource props) = None \<Longrightarrow> snd (read_qml penv wd props) = props"
  "read_file penv (resource props) = Some str \<Longrightarrow>
     comp_status (load (render_env penv) (resource props)) = Error \<Longrightarrow>
     snd (read_qml penv wd props) = props\<lparr>qmldata := Some str\<rparr>"
  "read_file penv (resource props) = Some str \<Longrightarrow>
     comp_status (load (render_env penv) (resource props)) \<noteq> Error \<Longrightarrow>
     snd (read_qml penv wd props)
       = traverseQml penv (props\<lparr>qmldata := Some str, duration := Some 0\<rparr>)"
  by (simp_all add: read_qml_def Let_def)

lemma length_fresh_block [simp]: "length (fresh_block wd a n) = nat n"
  by (simp add: fresh_block_def)

lemma clone_image_self:
  "st_self (snd (snd (clone_image penv buffer st))) = st_self st"
  "opened (st_world (snd (snd (clone_image penv buffer st)))) = opened (st_world st)"
  by (simp_all add: clone_image_def Let_def split_def split: option.splits)

lemma clone_image_None:
  "current_image (st_self st) = None \<Longrightarrow> clone_image penv buffer st = (1, buffer, st)"
  by (simp add: clone_image_def)

text \<open>
  The copy that \<open>clone_image\<close> makes: a new block, which holds the bytes of the
  current image up to the size of an image one row lower; behind them it holds what
  the pool had in that block.
\<close>

lemma clone_image_Some:
  fixes penv :: producer_env and buffer :: "nat option" and st :: producer_state
  assumes cur: "current_image (st_self st) = Some cur" and wf: "producer_wf st"
  defines "a \<equiv> next_block (st_world st)"
  defines "st' \<equiv> snd (snd (clone_image penv buffer st))"
  defines "self \<equiv> st_self st"
  shows "fst (clone_image penv buffer st) = 0"
    and "fst (snd (clone_image penv buffer st)) = Some a"
    and "frame_image (st_frame st') = Some a"
    and "a < next_block (st_world st')"
    and "blocks (st_world st') a =
           take (nat (mlt_image_format_size penv (format self) (current_width self)
                        (current_height self - 1))) (blocks (st_world st') cur)
           @ drop (nat (mlt_image_format_size penv (format self) (current_width self)
                          (current_height self - 1)))
               (fresh_block (st_world st') a
                  (mlt_image_format_size penv (format self) (current_width self)
                     (current_height self)))"
    and "current_alpha self = None \<Longrightarrow> frame_alpha (st_frame st') = frame_alpha (st_frame st)"
    and "current_alpha self = Some al \<Longrightarrow>
           frame_alpha (st_frame st') = Some (Suc a)
           \<and> blocks (st_world st') (Suc a)
               = take (nat (current_width self * current_height self)) (blocks (st_world st') al)"
proof -
  have lt: "cur < a" using cur wf by (simp add: producer_wf_def producer_pointers_def a_def)
  have al: "al < a" if "current_alpha self = Some al"
    using that wf by (simp add: producer_wf_def producer_pointers_def a_def self_def)
  show "fst (clone_image penv buffer st) = 0"
    and "fst (snd (clone_image penv buffer st)) = Some a"
    and "frame_image (st_frame st') = Some a"
    and "a < next_block (st_world st')"
    using cur
    by (simp_all add: clone_image_def Let_def split_def a_def st'_def mlt_pool_alloc_def
          memcpy_def write_bytes_def split: option.splits)
  show "blocks (st_world st') a =
           take (nat (mlt_image_format_size penv (format self) (current_width self)
                        (current_height self - 1))) (blocks (st_world st') cur)
           @ drop (nat (mlt_image_format_size penv (format self) (current_width self)
                          (current_height self - 1)))
               (fresh_block (st_world st') a
                  (mlt_image_format_size penv (format self) (current_width self)
                     (current_height self)))"
    using cur lt
    by (simp add: clone_image_def Let_def split_def a_def st'_def self_def mlt_pool_alloc_def
          memcpy_def write_bytes_def fresh_block_def split: option.splits)
  show "current_alpha self = None \<Longrightarrow> frame_alpha (st_frame st') = frame_alpha (st_frame st)"
    using cur
    by (simp add: clone_image_def Let_def split_def st'_def self_def mlt_pool_alloc_def
          memcpy_def write_bytes_def)
  show "current_alpha self = Some al \<Longrightarrow>
           frame_alpha (st_frame st') = Some (Suc a)
           \<and> blocks (st_world st') (Suc a)
               = take (nat (current_width self * current_height self)) (blocks (st_world st') al)"
    using cur al
    by (auto simp add: clone_image_def Let_def split_def a_def st'_def self_def mlt_pool_alloc_def
          memcpy_def write_bytes_def fresh_block_def)
qed

text \<open>
  The two parts of \<^verbatim>\<open>producer_get_image\<close>. \<open>reloaded\<close> is the state in which
  \<^verbatim>\<open>renderKdenliveTitle\<close> is entered: with the reload flag at zero it is the state
  of entry; otherwise the flag has been cleared, after \<^verbatim>\<open>read_qml\<close> when the flag
  was greater than one.
\<close>

lemma producer_get_image_cases:
  assumes "producer_get_image penv buffer fmt width height st = Inr r"
  obtains st0 st2 where
    "keeps st0 st2"
    "next_block (st_world st0) = next_block (st_world st)"
    "producer_pointers (st_self st0) = producer_pointers (st_self st)"
    "force_reload (parent (st_self st0)) = 0"
    "opened (st_world st0)
       = opened (st_world st)
         @ (if 1 < force_reload (parent (st_self st)) then [resource (parent (st_self st))] else [])"
    "qmldata (parent (st_self st0))
       = (if 1 < force_reload (parent (st_self st))
          then qmldata (snd (read_qml penv (st_world st) (parent (st_self st))))
          else qmldata (parent (st_self st)))"
    "r = \<lparr>gi_error = fst (clone_image penv buffer st2),
          gi_buffer = fst (snd (clone_image penv buffer st2)),
          gi_format = format (st_self st2), gi_width = frame_width (st_frame st2),
          gi_height = frame_height (st_frame st2),
          gi_state = snd (snd (clone_image penv buffer st2))\<rparr>"
proof (cases "force_reload (parent (st_self st)) = 0")
  case True
  then obtain st2 where
      "renderKdenliveTitle penv fmt
         (if 0 < rescale_width (st_frame st) then rescale_width (st_frame st) else width)
         (if 0 < rescale_height (st_frame st) then rescale_height (st_frame st) else height)
         (original_position (st_frame st)) 0 st = Inr st2"
    and "r = \<lparr>gi_error = fst (clone_image penv buffer st2),
          gi_buffer = fst (snd (clone_image penv buffer st2)),
          gi_format = format (st_self st2), gi_width = frame_width (st_frame st2),
          gi_height = frame_height (st_frame st2),
          gi_state = snd (snd (clone_image penv buffer st2))\<rparr>"
    using assms unfolding producer_get_image_def Let_def
    by (auto simp: split_def elim!: and_then_InrE)
  then show ?thesis
    using True that [of st st2] by (simp add: keeps_renderKdenliveTitle)
next
  case False
  define rq where "rq = (if 1 < force_reload (parent (st_self st))
                         then read_qml penv (st_world st) (parent (st_self st))
                         else (st_world st, parent (st_self st)))"
  define st0 where "st0 = set_force_reload 0
                            (st\<lparr>st_world := fst rq, st_self := (st_self st)\<lparr>parent := snd rq\<rparr>\<rparr>)"
  obtain st2 where
      "renderKdenliveTitle penv fmt
         (if 0 < rescale_width (st_frame st) then rescale_width (st_frame st) else width)
         (if 0 < rescale_height (st_frame st) then rescale_height (st_frame st) else height)
         (original_position (st_frame st)) 1 st0 = Inr st2"
    and "r = \<lparr>gi_error = fst (clone_image penv buffer st2),
          gi_buffer = fst (snd (clone_image penv buffer st2)),
          gi_format = format (st_self st2), gi_width = frame_width (st_frame st2),
          gi_height = frame_height (st_frame st2),
          gi_state = snd (snd (clone_image penv buffer st2))\<rparr>"
    using assms False unfolding producer_get_image_def Let_def st0_def rq_def
    by (auto simp: split_def elim!: and_then_InrE)
  moreover have "next_block (st_world st0) = next_block (st_world st)"
    and "producer_pointers (st_self st0) = producer_pointers (st_self st)"
    and "force_reload (parent (st_self st0)) = 0"
    and "opened (st_world st0)
       = opened (st_world st)
         @ (if 1 < force_reload (parent (st_self st)) then [resource (parent (st_self st))] else [])"
    and "qmldata (parent (st_self st0))
       = (if 1 < force_reload (parent (st_self st))
          then qmldata (snd (read_qml penv (st_world st) (parent (st_self st))))
          else qmldata (parent (st_self st)))"
    by (simp_all add: st0_def rq_def set_force_reload_def producer_pointers_def read_qml_opened)
  ultimately show ?thesis
    using that [of st0 st2] by (simp add: keeps_renderKdenliveTitle)
qed

text \<open>
  What a call of \<^verbatim>\<open>producer_get_image\<close> that returns has done about the reload
  flag. The flag is zero. The resource file has been opened once when the flag was
  greater than one on entry and not at all otherwise. With the flag at zero or one on
  entry the scene data are what they were; with a greater flag they are what
  \<^verbatim>\<open>read_qml\<close> made of the file: unchanged when the file cannot be opened, and
  otherwise the content of the file, which \<^verbatim>\<open>traverseQml\<close> may have changed again
  when the document compiles.
\<close>

lemma producer_get_image_reload_effects:
  assumes "producer_get_image penv buffer fmt width height st = Inr r"
  defines "p \<equiv> parent (st_self st)"
  defines "p' \<equiv> parent (st_self (gi_state r))"
  shows "force_reload p' = 0"
    and "opened (st_world (gi_state r))
           = opened (st_world st) @ (if 1 < force_reload p then [resource p] else [])"
    and "force_reload p \<le> 1 \<Longrightarrow> qmldata p' = qmldata p"
    and "1 < force_reload p \<Longrightarrow> read_file penv (resource p) = None \<Longrightarrow> qmldata p' = qmldata p"
    and "1 < force_reload p \<Longrightarrow> read_file penv (resource p) = Some str \<Longrightarrow>
           comp_status (load (render_env penv) (resource p)) = Error \<Longrightarrow> qmldata p' = Some str"
    and "1 < force_reload p \<Longrightarrow> read_file penv (resource p) = Some str \<Longrightarrow>
           comp_status (load (render_env penv) (resource p)) \<noteq> Error \<Longrightarrow>
           qmldata p' = qmldata (traverseQml penv (p\<lparr>qmldata := Some str, duration := Some 0\<rparr>))"
proof -
  from assms(1) obtain st0 st2 where
    k: "keeps st0 st2"
    and f0: "force_reload (parent (st_self st0)) = 0"
    and rr: "opened (st_world st0)
       = opened (st_world st) @ (if 1 < force_reload p then [resource p] else [])"
    and qd: "qmldata (parent (st_self st0))
       = (if 1 < force_reload p
          then qmldata (snd (read_qml penv (st_world st) p)) else qmldata p)"
    and r: "gi_state r = snd (snd (clone_image penv buffer st2))"
    unfolding p_def by (rule producer_get_image_cases) simp
  have q: "qmldata p' = qmldata (parent (st_self st0))"
    using k by (simp add: p'_def r clone_image_self keeps_def)
  show "force_reload p' = 0"
    using k f0 by (auto simp: p'_def r clone_image_self keeps_def)
  show "opened (st_world (gi_state r))
           = opened (st_world st) @ (if 1 < force_reload p then [resource p] else [])"
    using k rr by (simp add: r clone_image_self keeps_def)
  show "force_reload p \<le> 1 \<Longrightarrow> qmldata p' = qmldata p"
    using q qd by simp
  show "1 < force_reload p \<Longrightarrow> read_file penv (resource p) = None \<Longrightarrow> qmldata p' = qmldata p"
    using q qd by (simp add: read_qml_properties)
  show "1 < force_reload p \<Longrightarrow> read_file penv (resource p) = Some str \<Longrightarrow>
           comp_status (load (render_env penv) (resource p)) = Error \<Longrightarrow> qmldata p' = Some str"
    using q qd by (simp add: read_qml_properties)
  show "1 < force_reload p \<Longrightarrow> read_file penv (resource p) = Some str \<Longrightarrow>
           comp_status (load (render_env penv) (resource p)) \<noteq> Error \<Longrightarrow>
           qmldata p' = qmldata (traverseQml penv (p\<lparr>qmldata := Some str, duration := Some 0\<rparr>))"
    using q qd by (simp add: read_qml_properties)
qed

text \<open>
  What a call of \<^verbatim>\<open>producer_get_image\<close> that returns on a well-formed producer
  hands out. The error code is 1 exactly when the producer has no current image then,
  and 0 otherwise. In the latter case the buffer handed out is the image of the frame,
  a block allocated during the call and different from every buffer of the producer;
  it holds the bytes of the current image up to the size of an image one row lower,
  and behind them what the pool had in the block. When the producer has a current
  alpha channel, the frame gets a copy of it in a further new block.
\<close>

lemma producer_get_image_error_and_copy:
  assumes "producer_get_image penv buffer fmt width height st = Inr r"
      and "producer_wf st"
  shows "(gi_error r = 1 \<longleftrightarrow> current_image (st_self (gi_state r)) = None)
       \<and> (gi_error r = 0 \<longleftrightarrow> current_image (st_self (gi_state r)) \<noteq> None)
       \<and> (\<forall>cur. current_image (st_self (gi_state r)) = Some cur \<longrightarrow>
            (\<exists>a. gi_buffer r = Some a \<and> frame_image (st_frame (gi_state r)) = Some a
                \<and> next_block (st_world st) \<le> a \<and> a < next_block (st_world (gi_state r))
                \<and> Some a \<notin> set (producer_pointers (st_self (gi_state r)))
                \<and> blocks (st_world (gi_state r)) a
                    = take (nat (mlt_image_format_size penv (gi_format r)
                                   (current_width (st_self (gi_state r)))
                                   (current_height (st_self (gi_state r)) - 1)))
                        (blocks (st_world (gi_state r)) cur)
                      @ drop (nat (mlt_image_format_size penv (gi_format r)
                                     (current_width (st_self (gi_state r)))
                                     (current_height (st_self (gi_state r)) - 1)))
                          (fresh_block (st_world (gi_state r)) a
                             (mlt_image_format_size penv (gi_format r)
                                (current_width (st_self (gi_state r)))
                                (current_height (st_self (gi_state r)))))
                \<and> (\<forall>al. current_alpha (st_self (gi_state r)) = Some al \<longrightarrow>
                      (\<exists>b. frame_alpha (st_frame (gi_state r)) = Some b
                          \<and> next_block (st_world st) \<le> b \<and> b \<noteq> a
                          \<and> Some b \<notin> set (producer_pointers (st_self (gi_state r)))
                          \<and> blocks (st_world (gi_state r)) b
                              = take (nat (current_width (st_self (gi_state r))
                                            * current_height (st_self (gi_state r))))
                                  (blocks (st_world (gi_state r)) al)))))"
proof -
  from assms(1) obtain st0 st2 where
    k: "keeps st0 st2"
    and nb: "next_block (st_world st0) = next_block (st_world st)"
    and pp: "producer_pointers (st_self st0) = producer_pointers (st_self st)"
    and r: "r = \<lparr>gi_error = fst (clone_image penv buffer st2),
          gi_buffer = fst (snd (clone_image penv buffer st2)),
          gi_format = format (st_self st2), gi_width = frame_width (st_frame st2),
          gi_height = frame_height (st_frame st2),
          gi_state = snd (snd (clone_image penv buffer st2))\<rparr>"
    by (rule producer_get_image_cases)
  have "producer_wf st0"
    using assms(2) nb pp by (auto simp: producer_wf_def allocated_def list_all_iff split: option.splits)
  then have wf2: "producer_wf st2" and le: "next_block (st_world st) \<le> next_block (st_world st2)"
    using k nb by (simp_all add: keeps_def)
  have self: "st_self (gi_state r) = st_self st2"
    by (simp add: r clone_image_self)
  show ?thesis
  proof (cases "current_image (st_self st2)")
    case None
    then show ?thesis by (simp add: r clone_image_None)
  next
    case (Some cur)
    note c = clone_image_Some [OF Some wf2, where penv = penv and buffer = buffer]
    have ptrs: "Some (next_block (st_world st2)) \<notin> set (producer_pointers (st_self st2))"
      and ptrs': "Some (Suc (next_block (st_world st2))) \<notin> set (producer_pointers (st_self st2))"
      using wf2 by (auto simp: producer_wf_def allocated_def list_all_iff split: option.splits)
    show ?thesis
      using Some le ptrs ptrs' c(1-5) c(7)
      by (auto simp add: r clone_image_self)
  qed
qed


text \<open>
  When \<^verbatim>\<open>producer_get_image\<close> returns. The steps after the render call return
  whenever they have a source to copy from.
\<close>

lemma cache_image_returns:
  "\<exists>st'. cache_image (Some b) n st = Inr st' \<and> current_image (st_self st') \<noteq> None
     \<and> rgba_image (st_self st') = rgba_image (st_self st)
     \<and> format (st_self st') = format (st_self st)"
  by (simp add: cache_image_def Let_def split_def)

lemma revert_to_rgba_returns:
  assumes "current_image (st_self st) \<noteq> None"
      and "format (st_self st) \<noteq> mlt_image_rgb24a \<longrightarrow> rgba_image (st_self st) \<noteq> None"
  shows "\<exists>st1. revert_to_rgba n st = Inr st1 \<and> current_image (st_self st1) \<noteq> None"
proof (cases "format (st_self st) = mlt_image_rgb24a")
  case True
  then show ?thesis using assms by (simp add: revert_to_rgba_def)
next
  case False
  then obtain b where b: "rgba_image (st_self st) = Some b" using assms by auto
  obtain st' where "cache_image (Some b) n st = Inr st'" "current_image (st_self st') \<noteq> None"
    using cache_image_returns [of b n st] by blast
  then show ?thesis
    using False b by (simp add: revert_to_rgba_def and_then_def set_format_def)
qed

lemma convert_frame_returns:
  assumes "current_image (st_self st) \<noteq> None"
  shows "\<exists>d st4. convert_frame penv fmt w h st = Inr (d, st4)
           \<and> current_image (st_self st4) \<noteq> None"
  using assms
  by (auto simp: convert_frame_def frame_get_image_def cache_image_def set_format_def
        frame_replace_image_def and_then_def Let_def split_def split: option.splits)

lemma convert_title_returns:
  assumes "current_image (st_self st) \<noteq> None"
      and "format (st_self st) \<noteq> mlt_image_rgb24a \<longrightarrow> rgba_image (st_self st) \<noteq> None"
  shows "\<exists>st'. convert_title penv fmt w h st = Inr st' \<and> current_image (st_self st') \<noteq> None"
proof (cases "fmt \<noteq> mlt_image_none \<and> fmt \<noteq> mlt_image_glsl \<and> fmt \<noteq> format (st_self st)")
  case False
  then show ?thesis
    using assms(1) by (auto simp: convert_title_def set_frame_size_def Let_def)
next
  case True
  obtain st1 where r: "revert_to_rgba (w * h * 4) st = Inr st1"
    and c1: "current_image (st_self st1) \<noteq> None"
    using revert_to_rgba_returns [OF assms] by blast
  obtain d st4 where c: "convert_frame penv fmt w h st1 = Inr (d, st4)"
    and c4: "current_image (st_self st4) \<noteq> None"
    using convert_frame_returns [OF c1] by blast
  show ?thesis
    using True r c c4
    by (simp add: convert_title_def and_then_def set_frame_size_def cache_alpha_def
          Let_def split_def split: option.splits)
qed

lemma render_title_returns:
  assumes "render_frame (render_env penv) w h Format_RGBA8888 position renderer = Inr (img, r1)"
      and "\<not> qsize_isEmpty (img_size img)"
  shows "\<exists>st'. render_title penv renderer w h position True st = Inr st'
           \<and> current_image (st_self st') \<noteq> None \<and> format (st_self st') = mlt_image_rgb24a"
  using assms
  by (simp add: render_title_def and_then_def alloc_rgba_image_def store_rendered_def
        rendered_bits_def cache_image_def set_qrenderer_def cache_alpha_def
        set_current_size_def cache_buffer_def Let_def split_def split: option.splits)

lemma render_and_convert_returns:
  assumes "render_frame (render_env penv) w h Format_RGBA8888 position renderer = Inr (img, r1)"
      and "\<not> qsize_isEmpty (img_size img)"
  shows "\<exists>st'. render_and_convert penv renderer fmt w h position True st = Inr st'
           \<and> current_image (st_self st') \<noteq> None"
proof -
  obtain st1 where t: "render_title penv renderer w h position True st = Inr st1"
    and c: "current_image (st_self st1) \<noteq> None" and f: "format (st_self st1) = mlt_image_rgb24a"
    using render_title_returns [OF assms] by blast
  from convert_title_returns [of st1 penv fmt w h] c f
  show ?thesis by (simp add: render_and_convert_def and_then_def t)
qed

text \<open>
  A new session of an animated title renders its first request when the context can
  be made current, the document loads, the driver can be installed and the size is
  positive; the image has the requested size.
\<close>

lemma new_session_renders:
  assumes mc: "\<forall>n. makeCurrent env n" and doc: "loads env url"
      and anim: "0 < D"
      and drv: "c_quot (c_int (c_int (F * D) - 2)) D \<noteq> 0"
      and size: "0 < w" "0 < h"
  shows "\<exists>img r1. render_frame env w h fmt position (QmlRenderer url F D) = Inr (img, r1)
           \<and> img_size img = (w, h)"
proof -
  let ?s = "QmlRenderer url F D"
  have "\<exists>s'. render_frame env w h fmt position ?s
           = Inr (\<lparr>img_size = qsize_times (w, h) (w_dpr (m_corerenderer ?s)),
                   img_format = fmt,
                   img_scene = int (shown_step (m_framesCount ?s) position)
                     * c_quot 1000 (c_quot (c_int (m_framesCount ?s - 2)) (m_duration ?s)),
                   img_step = Suc (w_renders (m_corerenderer ?s)
                                   + shown_step (m_framesCount ?s) position)\<rparr>,
                  s')
         \<and> advances s' = advances ?s + render_steps (m_framesCount ?s) position"
    using assms
    by (intro render_frame_frames)
       (simp_all add: QmlRenderer_def QmlCoreRenderer_def setFPS_def setDPR_def
          qsize_isEmpty_def)
  moreover have "qsize_times (w, h) (w_dpr (m_corerenderer ?s)) = (w, h)"
    by (simp add: QmlRenderer_def QmlCoreRenderer_def setFPS_def setDPR_def qsize_times_one)
  ultimately show ?thesis by auto
qed

text \<open>
  A call with the reload flag set, for a title that is animated after the reload, in
  an environment where the application object exists, the context can be made
  current and the document loads, returns with error code 0. The flag makes
  \<^verbatim>\<open>renderKdenliveTitle\<close> drop the stored session and start a new one.
\<close>

lemma renderKdenliveTitle_forced_returns:
  assumes app: "createQApplicationIfNeeded penv"
      and dur: "duration (parent (st_self st)) = Some D" "0 < D"
      and drv: "c_quot (c_int (c_int (double_to_int (profile_fps penv) * D) - 2)) D \<noteq> 0"
      and mc: "\<forall>n. makeCurrent (render_env penv) n"
      and doc: "loads (render_env penv) (resource (parent (st_self st)))"
      and size: "0 < w" "0 < h"
  shows "\<exists>st'. renderKdenliveTitle penv fmt w h position 1 st = Inr st'
           \<and> current_image (st_self st') \<noteq> None"
proof -
  let ?R = "QmlRenderer (resource (parent (st_self st))) (double_to_int (profile_fps penv)) D"
  obtain img r1 where
    r: "render_frame (render_env penv) w h Format_RGBA8888 position ?R = Inr (img, r1)"
    and "img_size img = (w, h)"
    using new_session_renders [OF mc doc dur(2) drv size] by blast
  then have ne: "\<not> qsize_isEmpty (img_size img)"
    using size by (simp add: qsize_isEmpty_def)
  note rc = render_and_convert_returns [OF r ne]
  show ?thesis
  proof (cases "qrenderer (parent (st_self st))")
    case None
    then show ?thesis
      using app dur rc [of fmt "set_qrenderer (Some ?R)
                (clear_current_alpha (invalidate True st))"]
      by (simp add: renderKdenliveTitle_def Let_def invalidate_def set_force_reload_def
            clear_current_alpha_def set_qrenderer_def)
  next
    case (Some old)
    then show ?thesis
      using app dur rc [of fmt "set_qrenderer (Some ?R)
                (set_qrenderer None (clear_current_alpha (invalidate True st)))"]
      by (simp add: renderKdenliveTitle_def Let_def invalidate_def set_force_reload_def
            clear_current_alpha_def set_qrenderer_def)
  qed
qed

lemma producer_get_image_returns:
  assumes app: "createQApplicationIfNeeded penv"
      and forced: "force_reload (parent (st_self st)) \<noteq> 0"
      and p': "p' = (if 1 < force_reload (parent (st_self st))
                     then snd (read_qml penv (st_world st) (parent (st_self st)))
                     else parent (st_self st))"
      and dur: "duration p' = Some D" "0 < D"
      and drv: "c_quot (c_int (c_int (double_to_int (profile_fps penv) * D) - 2)) D \<noteq> 0"
      and mc: "\<forall>n. makeCurrent (render_env penv) n"
      and doc: "loads (render_env penv) (resource p')"
      and size: "0 < (if 0 < rescale_width (st_frame st) then rescale_width (st_frame st) else width)"
                "0 < (if 0 < rescale_height (st_frame st) then rescale_height (st_frame st) else height)"
  shows "\<exists>r. producer_get_image penv buffer fmt width height st = Inr r \<and> gi_error r = 0"
proof -
  define w where "w = (if 0 < rescale_width (st_frame st) then rescale_width (st_frame st) else width)"
  define h where "h = (if 0 < rescale_height (st_frame st) then rescale_height (st_frame st) else height)"
  define rq where "rq = (if 1 < force_reload (parent (st_self st))
                         then read_qml penv (st_world st) (parent (st_self st))
                         else (st_world st, parent (st_self st)))"
  define st0 where "st0 = set_force_reload 0
                            (st\<lparr>st_world := fst rq, st_self := (st_self st)\<lparr>parent := snd rq\<rparr>\<rparr>)"
  have rq': "snd rq = p'" by (simp add: rq_def p')
  have d0: "duration (parent (st_self st0)) = Some D"
    and r0: "resource (parent (st_self st0)) = resource p'"
    using dur by (simp_all add: st0_def set_force_reload_def rq')
  have sz: "0 < w" "0 < h" using size by (simp_all add: w_def h_def)
  obtain st2 where k: "renderKdenliveTitle penv fmt w h (original_position (st_frame st)) 1 st0
                         = Inr st2"
    and c: "current_image (st_self st2) \<noteq> None"
    using renderKdenliveTitle_forced_returns [OF app d0 dur(2) drv mc _ sz, of fmt
            "original_position (st_frame st)"] doc r0
    by auto
  have e: "fst (clone_image penv buffer st2) = 0"
    using c by (auto simp: clone_image_def Let_def split_def split: option.splits)
  have "producer_get_image penv buffer fmt width height st
          = Inr \<lparr>gi_error = fst (clone_image penv buffer st2),
                  gi_buffer = fst (snd (clone_image penv buffer st2)),
                  gi_format = format (st_self st2),
                  gi_width = frame_width (st_frame st2),
                  gi_height = frame_height (st_frame st2),
                  gi_state = snd (snd (clone_image penv buffer st2))\<rparr>"
    unfolding producer_get_image_def Let_def w_def [symmetric] h_def [symmetric]
      rq_def [symmetric] split_def
    using forced k by (simp add: and_then_def st0_def)
  then show ?thesis
    using e by simp
qed

text \<open>
  When it does not return. A static session is one of duration zero, and its first
  render call divides by that duration in \<^verbatim>\<open>initDriver\<close>. So for a title without
  animation every call that has to render, which is every call with the reload flag
  set and every first call, stops there.
\<close>

lemma static_session_fails:
  "render env w h fmt (QmlRenderer url F 0) = Inl DivisionByZero"
  by (simp add: render_def init_def initDriver_def QmlRenderer_def c_div_def Let_def)

lemma static_render_and_convert_fails:
  "render_and_convert penv (QmlRenderer url F 0) fmt w h position False st = Inl DivisionByZero"
  by (simp add: render_and_convert_def render_title_def and_then_def static_session_fails Let_def)

lemma static_title_never_returns:
  assumes app: "createQApplicationIfNeeded penv"
      and p': "p' = (if 1 < force_reload (parent (st_self st))
                     then snd (read_qml penv (st_world st) (parent (st_self st)))
                     else parent (st_self st))"
      and static: "duration p' = None \<or> duration p' = Some 0"
      and render: "force_reload (parent (st_self st)) \<noteq> 0
                   \<or> (qrenderer (parent (st_self st)) = None \<and> current_image (st_self st) = None)"
  shows "producer_get_image penv buffer fmt width height st = Inl DivisionByZero"
proof -
  define w where "w = (if 0 < rescale_width (st_frame st) then rescale_width (st_frame st) else width)"
  define h where "h = (if 0 < rescale_height (st_frame st) then rescale_height (st_frame st) else height)"
  have forced: "renderKdenliveTitle penv fmt a b position 1 s = Inl DivisionByZero"
    if "duration (parent (st_self s)) = None \<or> duration (parent (st_self s)) = Some 0"
    for a b position s
    using that app
    by (auto simp: renderKdenliveTitle_def Let_def invalidate_def set_force_reload_def
          drop_current_image_def clear_current_alpha_def set_qrenderer_def
          static_render_and_convert_fails split: option.splits)
  have first: "renderKdenliveTitle penv fmt a b position 0 s = Inl DivisionByZero"
    if "duration (parent (st_self s)) = None \<or> duration (parent (st_self s)) = Some 0"
      and "qrenderer (parent (st_self s)) = None" and "current_image (st_self s) = None"
    for a b position s
    using that app
    by (auto simp: renderKdenliveTitle_def Let_def invalidate_def set_force_reload_def
          drop_current_image_def clear_current_alpha_def set_qrenderer_def
          static_render_and_convert_fails split: option.splits)
  show ?thesis
  proof (cases "force_reload (parent (st_self st)) = 0")
    case True
    then have "renderKdenliveTitle penv fmt w h (original_position (st_frame st)) 0 st
                 = Inl DivisionByZero"
      using static render p' by (intro first) auto
    then show ?thesis
      unfolding producer_get_image_def Let_def w_def [symmetric] h_def [symmetric]
      using True by (simp add: and_then_def)
  next
    case False
    define rq where "rq = (if 1 < force_reload (parent (st_self st))
                           then read_qml penv (st_world st) (parent (st_self st))
                           else (st_world st, parent (st_self st)))"
    define st0 where "st0 = set_force_reload 0
                              (st\<lparr>st_world := fst rq, st_self := (st_self st)\<lparr>parent := snd rq\<rparr>\<rparr>)"
    have "snd rq = p'" by (simp add: rq_def p')
    then have "duration (parent (st_self st0)) = None \<or> duration (parent (st_self st0)) = Some 0"
      using static by (simp add: st0_def set_force_reload_def)
    from forced [OF this, of w h "original_position (st_frame st)"]
    have "renderKdenliveTitle penv fmt w h (original_position (st_frame st)) 1 st0
            = Inl DivisionByZero" .
    then show ?thesis
      unfolding producer_get_image_def Let_def w_def [symmetric] h_def [symmetric]
        rq_def [symmetric] split_def
      using False by (simp add: and_then_def st0_def)
  qed
qed

text \<open>
  Claim C9 at the first call for a title without animation: the reload flag is zero,
  no duration is set, nothing has been rendered yet. \<^verbatim>\<open>renderKdenliveTitle\<close>
  creates a session of duration zero and calls its \<^verbatim>\<open>render\<close>, which divides by
  zero in \<^verbatim>\<open>initDriver\<close>. The claim says that the call returns 1 or 0. Two calls
  that do return stand beside it: for the example title, which is animated after its
  reload, the call returns 0 and hands out block 2, a copy of the current image in
  block 1; where the application object cannot be created, the call returns 1 and
  leaves the buffer as it was.
\<close>

theorem producer_get_image_static_title:
  "duration (parent (st_self (set_force_reload 0 example_producer_state))) = None
   \<and> current_image (st_self (set_force_reload 0 example_producer_state)) = None
   \<and> producer_get_image example_producer_env None mlt_image_rgb24a 2 1
        (set_force_reload 0 example_producer_state)
      = Inl DivisionByZero
   \<and> and_then (producer_get_image example_producer_env None mlt_image_rgb24a 2 1
                  example_producer_state)
        (\<lambda>r. Inr (gi_error r, gi_buffer r, frame_image (st_frame (gi_state r)),
                  current_image (st_self (gi_state r)), rgba_image (st_self (gi_state r))))
      = Inr (0, Some 2, Some 2, Some 1, Some 0)
   \<and> and_then (producer_get_image (example_producer_env\<lparr>createQApplicationIfNeeded := False\<rparr>)
                  None mlt_image_rgb24a 2 1 example_producer_state)
        (\<lambda>r. Inr (gi_error r, gi_buffer r, current_image (st_self (gi_state r))))
      = Inr (1, None, None)"
proof -
  have "producer_get_image example_producer_env None mlt_image_rgb24a 2 1
          (set_force_reload 0 example_producer_state)
        = Inl DivisionByZero"
    by (rule static_title_never_returns [OF _ refl])
       (simp_all add: example_producer_env_def example_producer_state_def set_force_reload_def)
  moreover have "and_then (producer_get_image example_producer_env None mlt_image_rgb24a 2 1
                  example_producer_state)
        (\<lambda>r. Inr (gi_error r, gi_buffer r, frame_image (st_frame (gi_state r)),
                  current_image (st_self (gi_state r)), rgba_image (st_self (gi_state r))))
      = Inr (0, Some 2, Some 2, Some 1, Some 0)"
    by code_simp
  moreover have "and_then (producer_get_image
                    (example_producer_env\<lparr>createQApplicationIfNeeded := False\<rparr>)
                    None mlt_image_rgb24a 2 1 example_producer_state)
        (\<lambda>r. Inr (gi_error r, gi_buffer r, current_image (st_self (gi_state r))))
      = Inr (1, None, None)"
    by code_simp
  ultimately show ?thesis
    by (simp add: example_producer_state_def set_force_reload_def)
qed

text \<open>
  Claim C10 at calls for a title without animation. With the reload flag at 1 the
  call stops in \<^verbatim>\<open>initDriver\<close> as above; the file has not been read, for the
  duration would be 2 then. With the flag at 2 and a scene in which \<^verbatim>\<open>traverseQml\<close>
  finds no animation, \<^verbatim>\<open>read_qml\<close> opens the file, stores its content and sets
  the duration to zero, and then the call stops in the same place. The claim says that
  the flag is zero after the call. For the example title, which is animated after its
  reload, the call with the flag at 2 returns: the flag is zero, the file has been
  opened once and its content is the scene data.
\<close>

theorem producer_get_image_reload_static_title:
  "producer_get_image example_producer_env None mlt_image_rgb24a 2 1
     (set_force_reload 1 example_producer_state)
    = Inl DivisionByZero
   \<and> read_qml static_producer_env (st_world example_producer_state)
        (parent (st_self example_producer_state))
      = ((st_world example_producer_state)\<lparr>opened := [''title.qml'']\<rparr>,
         (parent (st_self example_producer_state))
           \<lparr>qmldata := Some ''Item {}'', duration := Some 0\<rparr>)
   \<and> producer_get_image static_producer_env None mlt_image_rgb24a 2 1 example_producer_state
      = Inl DivisionByZero
   \<and> and_then (producer_get_image example_producer_env None mlt_image_rgb24a 2 1
                  example_producer_state)
        (\<lambda>r. Inr (force_reload (parent (st_self (gi_state r))),
                  qmldata (parent (st_self (gi_state r))), opened (st_world (gi_state r))))
      = Inr (0, Some ''Item {}'', [''title.qml''])"
proof -
  have one: "producer_get_image example_producer_env None mlt_image_rgb24a 2 1
               (set_force_reload 1 example_producer_state)
             = Inl DivisionByZero"
    by (rule static_title_never_returns [OF _ refl])
       (simp_all add: example_producer_env_def example_producer_state_def set_force_reload_def)
  have rq: "read_qml static_producer_env (st_world example_producer_state)
              (parent (st_self example_producer_state))
            = ((st_world example_producer_state)\<lparr>opened := [''title.qml'']\<rparr>,
               (parent (st_self example_producer_state))
                 \<lparr>qmldata := Some ''Item {}'', duration := Some 0\<rparr>)"
    by (simp add: read_qml_def static_producer_env_def example_producer_env_def
          example_producer_state_def working_environment_def Let_def)
  have two: "producer_get_image static_producer_env None mlt_image_rgb24a 2 1
               example_producer_state
             = Inl DivisionByZero"
    by (rule static_title_never_returns [OF _ refl])
       (simp_all add: rq, simp_all add: static_producer_env_def example_producer_env_def
          example_producer_state_def)
  have three: "and_then (producer_get_image example_producer_env None mlt_image_rgb24a 2 1
                  example_producer_state)
        (\<lambda>r. Inr (force_reload (parent (st_self (gi_state r))),
                  qmldata (parent (st_self (gi_state r))), opened (st_world (gi_state r))))
      = Inr (0, Some ''Item {}'', [''title.qml''])"
    by code_simp
  show ?thesis using one rq two three by simp
qed

end
